theory Spec2Isabelle
  imports Complex_Main "HOL-Library.Sublist"
begin

chapter \<open>The valuation refresh pipeline of fund-eye-client\<close>

text \<open>
  The model follows the TypeScript sources: the valuation calculator
  (\<open>unnamed/part_001\<close>), the error handler with its retry loop (the last part of
  \<open>src/main/types.ts\<close>), the refresh of all valuations with its batch executor
  (\<open>src/main/services/ipc-handler.ts\<close>), the quote fetcher (\<open>unnamed/part_000\<close>) and the
  scheduler with its market-hours gate (\<open>src/main/services/update-scheduler.ts\<close>).
  Definitions come first, under the names of the source; the properties follow.
\<close>

section \<open>Runtime values\<close>

text \<open>
  A JavaScript string is a sequence of UTF-16 code units; a code unit is modelled by its
  numeric value. The messages of this program contain CJK text, so the 8-bit \<open>char\<close> of HOL
  is not enough. \<open>js\<close> embeds an ASCII literal.

  A JavaScript \<open>number\<close> that holds a price, a ratio or a delay is modelled as a \<open>real\<close>: the
  arithmetic of the model is exact, the rounding of IEEE doubles is not part of it. Counters
  are \<open>nat\<close>, configured limits are \<open>int\<close>.
\<close>

type_synonym jsstring = "nat list"

definition js :: "string \<Rightarrow> jsstring" where
  "js s = map of_char s"

text \<open>\<open>String.prototype.includes\<close>: does \<open>t\<close> occur in \<open>s\<close> as a contiguous block?\<close>

fun str_includes :: "'a list \<Rightarrow> 'a list \<Rightarrow> bool" where
  "str_includes [] t = (t = [])"
| "str_includes (c # s) t = (prefix t (c # s) \<or> str_includes s t)"

section \<open>Market hours (\<open>UpdateScheduler.isMarketOpen\<close> in update-scheduler.ts)\<close>

text \<open>
  The gate reads three fields of the local time: \<open>getDay()\<close> (0 is Sunday, 6 is Saturday),
  \<open>getHours()\<close> and \<open>getMinutes()\<close>. It does not read the seconds: a time belongs to its
  minute.
\<close>

record LocalTime =
  day :: nat
  hours :: nat
  minutes :: nat

definition morningStart :: nat where "morningStart = 9 * 60 + 30"
definition morningEnd :: nat where "morningEnd = 11 * 60 + 30"
definition afternoonStart :: nat where "afternoonStart = 13 * 60"
definition afternoonEnd :: nat where "afternoonEnd = 15 * 60"

definition isMarketOpen :: "LocalTime \<Rightarrow> bool" where
  "isMarketOpen now =
     (let time = hours now * 60 + minutes now in
      if day now = 0 \<or> day now = 6 then False
      else (time \<ge> morningStart \<and> time \<le> morningEnd) \<or>
           (time \<ge> afternoonStart \<and> time \<le> afternoonEnd))"

text \<open>
  The clock reading \<open>h:m\<close> lies between \<open>h1:m1\<close> and \<open>h2:m2\<close>, both ends included: the
  specification's reading of a window, written on hours and minutes and not on the minute
  count the code computes.
\<close>

definition clockBetween :: "nat \<times> nat \<Rightarrow> nat \<times> nat \<Rightarrow> nat \<times> nat \<Rightarrow> bool" where
  "clockBetween lo hi t =
     (case (lo, hi, t) of ((h1, m1), (h2, m2), (h, m)) \<Rightarrow>
        (h1 < h \<or> (h1 = h \<and> m1 \<le> m)) \<and> (h < h2 \<or> (h = h2 \<and> m \<le> m2)))"

section \<open>Valuation calculator (\<open>ValuationCalculator\<close> in unnamed/part_001)\<close>

record Holding =
  stockCode :: jsstring
  stockName :: jsstring
  ratio :: real
  change :: real
  price :: real

record StockQuote =
  code :: jsstring
  name :: jsstring
  price :: real
  change :: real
  changeAmount :: real

record Valuation =
  estimatedValue :: real
  estimatedChange :: real
  updateTime :: jsstring
  isComplete :: bool

record FundDetail =
  code :: jsstring
  name :: jsstring
  type :: jsstring
  netValue :: real
  netValueDate :: jsstring
  holdings :: "Holding list"

text \<open>
  The loop of \<open>calculateWeightedChange\<close>: \<open>totalChange\<close> and \<open>matchedCount\<close> are the two
  accumulators, a \<open>Map\<close> is a partial function, and a quote object is always truthy, so
  \<open>if (quote)\<close> tests that the key is present.
\<close>

fun weightedLoop ::
  "(jsstring \<rightharpoonup> StockQuote) \<Rightarrow> Holding list \<Rightarrow> real \<Rightarrow> nat \<Rightarrow> real \<times> nat" where
  "weightedLoop quoteMap [] totalChange matchedCount = (totalChange, matchedCount)"
| "weightedLoop quoteMap (holding # rest) totalChange matchedCount =
     (case quoteMap (stockCode holding) of
        Some quote \<Rightarrow>
          weightedLoop quoteMap rest
            (totalChange + StockQuote.change quote * (ratio holding / 100))
            (matchedCount + 1)
      | None \<Rightarrow> weightedLoop quoteMap rest totalChange matchedCount)"

definition calculateWeightedChange ::
  "Holding list \<Rightarrow> (jsstring \<rightharpoonup> StockQuote) \<Rightarrow> real \<times> bool" where
  "calculateWeightedChange hs quoteMap =
     (case weightedLoop quoteMap hs 0 0 of
        (totalChange, matchedCount) \<Rightarrow>
          (totalChange, matchedCount = length hs \<and> length hs > 0))"

definition calculateEstimatedValue :: "real \<Rightarrow> real \<Rightarrow> real" where
  "calculateEstimatedValue nv ec = nv * (1 + ec / 100)"

text \<open>\<open>quoteMap.set(quote.code, quote)\<close> for each quote in turn: a later quote replaces an
  earlier one with the same code.\<close>

definition buildQuoteMap :: "StockQuote list \<Rightarrow> (jsstring \<rightharpoonup> StockQuote)" where
  "buildQuoteMap quotes = fold (\<lambda>q m. m(StockQuote.code q \<mapsto> q)) quotes Map.empty"

text \<open>\<open>calculateValuation\<close>; \<open>now\<close> is what \<open>new Date().toISOString()\<close> returns.\<close>

definition calculateValuation :: "jsstring \<Rightarrow> FundDetail \<Rightarrow> StockQuote list \<Rightarrow> Valuation" where
  "calculateValuation now fund quotes =
     (let quoteMap = buildQuoteMap quotes;
          (ec, complete) = calculateWeightedChange (FundDetail.holdings fund) quoteMap;
          ev = calculateEstimatedValue (FundDetail.netValue fund) ec
      in \<lparr> estimatedValue = ev, estimatedChange = ec, updateTime = now, isComplete = complete \<rparr>)"

text \<open>The holdings that have a quote, in the order of the list.\<close>

definition matched :: "(jsstring \<rightharpoonup> StockQuote) \<Rightarrow> Holding list \<Rightarrow> Holding list" where
  "matched quoteMap hs = filter (\<lambda>h. quoteMap (stockCode h) \<noteq> None) hs"

section \<open>Error handler (\<open>ErrorHandler\<close> in src/main/types.ts)\<close>

datatype ErrorType = NETWORK | PARSE | STORAGE | NOT_FOUND | UNKNOWN

text \<open>
  An \<open>Error\<close> object is either a plain \<open>Error\<close> with its message, or an \<open>AppError\<close> (the
  classes \<open>NetworkError\<close>, \<open>ParseError\<close>, \<open>StorageError\<close> and \<open>NotFoundError\<close> only fix the
  arguments of the \<open>AppError\<close> constructor and the \<open>name\<close>); \<open>error instanceof AppError\<close> is
  the test for the second constructor.
\<close>

datatype jserror = Error jsstring | IsAppError AppError
and AppError =
  AppError (name: jsstring) (message: jsstring) (type: ErrorType) (retryable: bool)
    (originalError: "jserror option")

fun errorMessage :: "jserror \<Rightarrow> jsstring" where
  "errorMessage (Error m) = m"
| "errorMessage (IsAppError a) = AppError.message a"

definition newAppError ::
  "jsstring \<Rightarrow> ErrorType \<Rightarrow> bool \<Rightarrow> jserror option \<Rightarrow> AppError" where
  "newAppError msg t r orig = AppError (js ''AppError'') msg t r orig"

definition NetworkError :: "jsstring \<Rightarrow> jserror option \<Rightarrow> AppError" where
  "NetworkError msg orig = AppError (js ''NetworkError'') msg NETWORK True orig"

definition ParseError :: "jsstring \<Rightarrow> jserror option \<Rightarrow> AppError" where
  "ParseError msg orig = AppError (js ''ParseError'') msg PARSE False orig"

definition StorageError :: "jsstring \<Rightarrow> jserror option \<Rightarrow> AppError" where
  "StorageError msg orig = AppError (js ''StorageError'') msg STORAGE True orig"

definition NotFoundError :: "jsstring \<Rightarrow> AppError" where
  "NotFoundError msg = AppError (js ''NotFoundError'') msg NOT_FOUND False None"

record ErrorState =
  type :: ErrorType
  message :: jsstring
  retryable :: bool
  timestamp :: jsstring
  retryCount :: nat

record RetryConfig =
  maxRetries :: int
  baseDelay :: real
  maxDelay :: real
  backoffMultiplier :: real

definition DEFAULT_RETRY_CONFIG :: RetryConfig where
  "DEFAULT_RETRY_CONFIG =
     \<lparr> maxRetries = 3, baseDelay = 1000, maxDelay = 10000, backoffMultiplier = 2 \<rparr>"

record ErrorHandler =
  config :: RetryConfig
  errorHistory :: "ErrorState list"

definition maxHistorySize :: nat where
  "maxHistorySize = 100"

text \<open>
  The Chinese literals of the source, as code units. In the order of the definitions: the
  localized "not found" that \<open>normalizeError\<close> looks for; the four messages of
  \<open>getNetworkErrorMessage\<close> (timeout, connection refused, host not found, other); the messages
  of a parse and of a storage error; and the two fixed parts of the message of an exhausted
  retry, \<open>${context} <failed, retried> ${maxRetries} <times>: ${message}\<close>.
\<close>

definition zhNotFound :: jsstring where
  "zhNotFound = [26410, 25214, 21040]"

definition zhTimeout :: jsstring where
  "zhTimeout = [32593, 32476, 36830, 25509, 36229, 26102, 65292, 35831, 26816, 26597, 32593,
     32476, 29366, 24577]"

definition zhRefused :: jsstring where
  "zhRefused = [26080, 27861, 36830, 25509, 21040, 26381, 21153, 22120, 65292, 35831, 31245,
     21518, 37325, 35797]"

definition zhUnresolved :: jsstring where
  "zhUnresolved = [26080, 27861, 35299, 26512, 26381, 21153, 22120, 22320, 22336, 65292, 35831,
     26816, 26597, 32593, 32476, 36830, 25509]"

definition zhNetwork :: jsstring where
  "zhNetwork = [32593, 32476, 36830, 25509, 24322, 24120, 65292, 35831, 26816, 26597, 32593,
     32476, 29366, 24577]"

definition zhParseFailed :: jsstring where
  "zhParseFailed = [25968, 25454, 35299, 26512, 22833, 36133]"

definition zhStorageFailed :: jsstring where
  "zhStorageFailed = [23384, 20648, 25805, 20316, 22833, 36133]"

definition zhFailedRetried :: jsstring where
  "zhFailedRetried = [32, 22833, 36133, 65292, 24050, 37325, 35797, 32]"

definition zhTimes :: jsstring where
  "zhTimes = [32, 27425, 58, 32]"

text \<open>A whole number in a template literal is printed in decimal.\<close>

fun natToString :: "nat \<Rightarrow> jsstring" where
  "natToString n = (if n < 10 then [48 + n] else natToString (n div 10) @ [48 + n mod 10])"

declare natToString.simps [simp del]

definition intToString :: "int \<Rightarrow> jsstring" where
  "intToString i = (if i < 0 then 45 # natToString (nat (- i)) else natToString (nat i))"

text \<open>
  \<open>String.prototype.toLowerCase\<close> is the runtime's, by the Unicode case tables; the
  functions that call it take it as the argument \<open>toLowerCase\<close>. On ASCII text it is
  \<open>asciiLower\<close>, which the examples use.
\<close>

definition asciiLower :: "jsstring \<Rightarrow> jsstring" where
  "asciiLower s = map (\<lambda>c. if 65 \<le> c \<and> c \<le> 90 then c + 32 else c) s"

definition getNetworkErrorMessage :: "(jsstring \<Rightarrow> jsstring) \<Rightarrow> jserror \<Rightarrow> jsstring" where
  "getNetworkErrorMessage toLowerCase error =
     (let message = toLowerCase (errorMessage error) in
      if str_includes message (js ''timeout'') then zhTimeout
      else if str_includes message (js ''econnrefused'') then zhRefused
      else if str_includes message (js ''enotfound'') then zhUnresolved
      else zhNetwork)"

fun normalizeError :: "(jsstring \<Rightarrow> jsstring) \<Rightarrow> jserror \<Rightarrow> AppError" where
  "normalizeError toLowerCase (IsAppError a) = a"
| "normalizeError toLowerCase (Error m) =
     (let error = Error m; message = toLowerCase (errorMessage error) in
      if str_includes message (js ''network'') \<or>
         str_includes message (js ''timeout'') \<or>
         str_includes message (js ''econnrefused'') \<or>
         str_includes message (js ''enotfound'') \<or>
         str_includes message (js ''socket'') \<or>
         str_includes message (js ''fetch'')
      then NetworkError (getNetworkErrorMessage toLowerCase error) (Some error)
      else if str_includes message (js ''parse'') \<or> str_includes message (js ''json'') \<or>
              str_includes message (js ''syntax'')
      then ParseError zhParseFailed (Some error)
      else if str_includes message (js ''storage'') \<or> str_includes message (js ''file'') \<or>
              str_includes message (js ''permission'')
      then StorageError zhStorageFailed (Some error)
      else if str_includes message (js ''not found'') \<or> str_includes message zhNotFound
      then NotFoundError (errorMessage error)
      else newAppError (errorMessage error) UNKNOWN False (Some error))"

declare normalizeError.simps [simp del]

text \<open>\<open>calculateDelay\<close>: \<open>Math.pow\<close> with a whole exponent, \<open>Math.min\<close>.\<close>

definition calculateDelay :: "RetryConfig \<Rightarrow> int \<Rightarrow> real" where
  "calculateDelay cfg rc =
     (let delay = baseDelay cfg * power_int (backoffMultiplier cfg) (rc - 1)
      in min delay (maxDelay cfg))"

text \<open>\<open>toErrorState\<close> and \<open>recordError\<close>; \<open>now\<close> is \<open>new Date().toISOString()\<close>.\<close>

definition toErrorState :: "jsstring \<Rightarrow> AppError \<Rightarrow> ErrorState" where
  "toErrorState now e =
     \<lparr> type = AppError.type e, message = AppError.message e, retryable = AppError.retryable e,
       timestamp = now, retryCount = 0 \<rparr>"

definition recordError :: "jsstring \<Rightarrow> AppError \<Rightarrow> nat \<Rightarrow> ErrorHandler \<Rightarrow> ErrorHandler" where
  "recordError now error rc h =
     (let errorState = (toErrorState now error)\<lparr> retryCount := rc \<rparr>;
          pushed = errorHistory h @ [errorState]
      in h\<lparr> errorHistory := (if length pushed > maxHistorySize then tl pushed else pushed) \<rparr>)"

text \<open>
  What a \<open>catch\<close> clause receives: an \<open>Error\<close> object, or any other value, kept as the
  string \<open>String(error)\<close> that \<open>withRetry\<close> wraps in a new \<open>Error\<close>.
\<close>

datatype thrown = ThrownError jserror | ThrownOther jsstring

fun asError :: "thrown \<Rightarrow> jserror" where
  "asError (ThrownError e) = e"
| "asError (ThrownOther s) = Error s"

definition exhaustedMessage :: "jsstring \<Rightarrow> int \<Rightarrow> jsstring \<Rightarrow> jsstring" where
  "exhaustedMessage context n msg = context @ zhFailedRetried @ intToString n @ zhTimes @ msg"

text \<open>
  What \<open>withRetry\<close> does besides returning: \<open>attempts\<close> counts the invocations of \<open>fn\<close>,
  \<open>sleeps\<close> lists the arguments of \<open>sleep\<close> in order.
\<close>

record RetryTrace =
  attempts :: nat
  sleeps :: "real list"

text \<open>
  The loop of \<open>withRetry\<close>. The operation is given by the outcome of each of its
  invocations: \<open>fn k\<close> is what the invocation after \<open>k\<close> earlier ones does, \<open>Inr\<close> a value it
  resolves to, \<open>Inl\<close> what it throws. The result is \<open>Inr\<close> the value returned or \<open>Inl\<close> the
  value thrown (\<open>None\<close> for the \<open>null\<close> that \<open>lastError\<close> starts with).
\<close>

function withRetryLoop ::
  "(jsstring \<Rightarrow> jsstring) \<Rightarrow> jsstring \<Rightarrow> (nat \<Rightarrow> thrown + 'a) \<Rightarrow> jsstring \<Rightarrow>
   jserror option \<Rightarrow> nat \<Rightarrow> ErrorHandler \<Rightarrow> RetryTrace \<Rightarrow>
   (jserror option + 'a) \<times> ErrorHandler \<times> RetryTrace" where
  "withRetryLoop toLowerCase now fn context lastError rc h tr =
     (if int rc \<le> maxRetries (config h) then
        (case fn (attempts tr) of
           Inr v \<Rightarrow> (Inr v, h, tr\<lparr> attempts := attempts tr + 1 \<rparr>)
         | Inl error \<Rightarrow>
             (let tr1 = tr\<lparr> attempts := attempts tr + 1 \<rparr>;
                  lastError1 = asError error;
                  appError = normalizeError toLowerCase lastError1
              in if \<not> AppError.retryable appError then
                   (Inl (Some (IsAppError appError)), recordError now appError rc h, tr1)
                 else
                   (let rc1 = rc + 1
                    in if int rc1 > maxRetries (config h) then
                         (Inl (Some (IsAppError
                            (newAppError
                               (exhaustedMessage context (maxRetries (config h))
                                  (AppError.message appError))
                               (AppError.type appError) False (Some lastError1)))),
                          recordError now appError (rc1 - 1) h, tr1)
                       else
                         withRetryLoop toLowerCase now fn context (Some lastError1) rc1 h
                           (tr1\<lparr> sleeps := sleeps tr1 @ [calculateDelay (config h) (int rc1)] \<rparr>))))
      else (Inl lastError, h, tr))"
  by pat_completeness auto
termination
  by (relation "measure (\<lambda>(lc, now, fn, ctx, le, rc, h, tr). nat (maxRetries (config h) + 1 - int rc))")
    auto

declare withRetryLoop.simps [simp del]

definition withRetry ::
  "(jsstring \<Rightarrow> jsstring) \<Rightarrow> jsstring \<Rightarrow> ErrorHandler \<Rightarrow> (nat \<Rightarrow> thrown + 'a) \<Rightarrow> jsstring \<Rightarrow>
   (jserror option + 'a) \<times> ErrorHandler \<times> RetryTrace" where
  "withRetry toLowerCase now h fn context =
     withRetryLoop toLowerCase now fn context None 0 h \<lparr> attempts = 0, sleeps = [] \<rparr>"

section \<open>Refresh of all valuations (\<open>batchExecute\<close>, \<open>IPCHandler\<close> in ipc-handler.ts)\<close>

definition MAX_CONCURRENT_REQUESTS :: nat where
  "MAX_CONCURRENT_REQUESTS = 5"

text \<open>\<open>Array.prototype.slice(i, j)\<close> for \<open>0 \<le> i \<le> j\<close>.\<close>

definition slice :: "'a list \<Rightarrow> nat \<Rightarrow> nat \<Rightarrow> 'a list" where
  "slice xs i j = take (j - i) (drop i xs)"

text \<open>
  \<open>Promise.all\<close> on promises that have settled as \<open>outs\<close> (\<open>Inl\<close> rejected, \<open>Inr\<close>
  fulfilled): all values in order when none is rejected, otherwise the rejection that came
  first in time, which \<open>first\<close> picks among the rejections.
\<close>

fun rejections :: "('e + 'r) list \<Rightarrow> 'e list" where
  "rejections [] = []"
| "rejections (Inl e # outs) = e # rejections outs"
| "rejections (Inr v # outs) = rejections outs"

fun fulfilments :: "('e + 'r) list \<Rightarrow> 'r list" where
  "fulfilments [] = []"
| "fulfilments (Inl e # outs) = fulfilments outs"
| "fulfilments (Inr v # outs) = v # fulfilments outs"

definition promiseAll :: "('e list \<Rightarrow> 'e) \<Rightarrow> ('e + 'r) list \<Rightarrow> 'e + 'r list" where
  "promiseAll first outs =
     (if rejections outs = [] then Inr (fulfilments outs) else Inl (first (rejections outs)))"

text \<open>
  The loop of \<open>batchExecute\<close>; \<open>fn x\<close> is how the promise of item \<open>x\<close> settles, and
  \<open>concurrency\<close> is a whole number. The loop does not end when \<open>concurrency\<close> is 0 and
  there is an item, hence the \<open>option\<close>: \<open>None\<close> is a call that never returns,
  \<open>Some (Inl e)\<close> one that rejects, \<open>Some (Inr results)\<close> one that returns.
\<close>

partial_function (option) batchLoop ::
  "('e list \<Rightarrow> 'e) \<Rightarrow> 'a list \<Rightarrow> ('a \<Rightarrow> 'e + 'r) \<Rightarrow> nat \<Rightarrow> nat \<Rightarrow> 'r list \<Rightarrow>
   ('e + 'r list) option" where
  "batchLoop first items fn concurrency i results =
     (if i < length items then
        (let batch = slice items i (i + concurrency) in
         case promiseAll first (map fn batch) of
           Inl e \<Rightarrow> Some (Inl e)
         | Inr batchResults \<Rightarrow>
             batchLoop first items fn concurrency (i + concurrency) (results @ batchResults))
      else Some (Inr results))"

definition batchExecute ::
  "('e list \<Rightarrow> 'e) \<Rightarrow> 'a list \<Rightarrow> ('a \<Rightarrow> 'e + 'r) \<Rightarrow> nat \<Rightarrow> ('e + 'r list) option" where
  "batchExecute first items fn concurrency = batchLoop first items fn concurrency 0 []"

text \<open>
  The sequential map the specification compares with: one item after the other, each awaited
  before the next starts, stopping at the first rejection.
\<close>

fun sequentialMap :: "('a \<Rightarrow> 'e + 'r) \<Rightarrow> 'a list \<Rightarrow> 'e + 'r list" where
  "sequentialMap fn [] = Inr []"
| "sequentialMap fn (x # xs) =
     (case fn x of
        Inl e \<Rightarrow> Inl e
      | Inr r \<Rightarrow> (case sequentialMap fn xs of Inl e \<Rightarrow> Inl e | Inr rs \<Rightarrow> Inr (r # rs)))"

text \<open>What \<open>fundFetcher.getFundValuation\<close> resolves to when it is not \<open>null\<close>.\<close>

record FundValuation =
  netValue :: real
  netValueDate :: jsstring
  estimatedValue :: real
  estimatedChange :: real
  updateTime :: jsstring
  isRealValue :: bool
  isTradingDay :: bool

text \<open>
  A fund of the watch list. \<open>isRealValue\<close> is optional. The record is extensible: a fund may
  carry more fields than these (the stored form has \<open>addedAt\<close>), which the object spread
  \<open>{...fund, ...}\<close> copies; the functions below work on any extension.
\<close>

record Fund =
  code :: jsstring
  name :: jsstring
  netValue :: real
  netValueDate :: jsstring
  estimatedValue :: real
  estimatedChange :: real
  updateTime :: jsstring
  isRealValue :: "bool option"
  holdings :: "Holding list"

text \<open>
  The collaborators of one refresh. \<open>getFundValuation\<close> is the provider's answer for a fund
  code (it catches every failure and resolves to \<open>null\<close>, here \<open>None\<close>). \<open>fetchQuotes\<close> is what
  the request loop of \<open>getStockQuotes\<close> ends with for a non-empty list of codes: the quotes
  parsed from the response, or none when every attempt failed. \<open>isoNow\<close> is the clock reading of
  \<open>calculateValuation\<close>. \<open>saveWatchlist\<close> is the storage service: \<open>None\<close> when it returns,
  \<open>Some\<close> what it throws. \<open>firstRejection\<close> is the order in which rejected promises settle.
\<close>

record 'a Collaborators =
  getFundValuation :: "jsstring \<Rightarrow> FundValuation option"
  fetchQuotes :: "jsstring list \<Rightarrow> StockQuote list"
  isoNow :: jsstring
  saveWatchlist :: "'a Fund_scheme list \<Rightarrow> thrown option"
  firstRejection :: "thrown list \<Rightarrow> thrown"

text \<open>The calls a refresh makes to its collaborators, in order.\<close>

datatype 'a Call =
  GetFundValuation jsstring
| GetStockQuotes "jsstring list"
| SaveWatchlist "'a Fund_scheme list"

definition getStockQuotes :: "(jsstring list \<Rightarrow> StockQuote list) \<Rightarrow> jsstring list \<Rightarrow> StockQuote list" where
  "getStockQuotes fetch codes = (if codes = [] then [] else fetch codes)"

text \<open>\<open>allStockCodes\<close>: a \<open>Set\<close> keeps the first occurrence of each code, in insertion order.\<close>

definition setAdd :: "'k list \<Rightarrow> 'k \<Rightarrow> 'k list" where
  "setAdd s k = (if k \<in> set s then s else s @ [k])"

definition collectStockCodes :: "'a Fund_scheme list \<Rightarrow> jsstring list" where
  "collectStockCodes watchlist =
     fold (\<lambda>fund s. fold (\<lambda>holding s'. setAdd s' (stockCode holding)) (Fund.holdings fund) s)
       watchlist []"

text \<open>The body of \<open>watchlist.map((fund, index) => ...)\<close>, with \<open>fundValuation = valuations[index]\<close>.\<close>

definition updateHolding :: "(jsstring \<rightharpoonup> StockQuote) \<Rightarrow> Holding \<Rightarrow> Holding" where
  "updateHolding quoteMap h =
     (let quote = quoteMap (stockCode h) in
      h\<lparr> Holding.change := (case quote of Some q \<Rightarrow> StockQuote.change q | None \<Rightarrow> Holding.change h),
         Holding.price := (case quote of Some q \<Rightarrow> StockQuote.price q | None \<Rightarrow> Holding.price h) \<rparr>)"

definition updateFund ::
  "jsstring \<Rightarrow> bool \<Rightarrow> (jsstring \<rightharpoonup> StockQuote) \<Rightarrow> FundValuation option \<Rightarrow> 'a Fund_scheme \<Rightarrow>
   'a Fund_scheme" where
  "updateFund clock hasStockQuotes quoteMap fundValuation fund =
     (let updatedHoldings =
            (if hasStockQuotes then map (updateHolding quoteMap) (Fund.holdings fund)
             else Fund.holdings fund)
      in case fundValuation of
           Some fv \<Rightarrow>
             fund\<lparr> Fund.netValue :=
                     (if FundValuation.isRealValue fv then FundValuation.netValue fv
                      else Fund.netValue fund),
                   Fund.netValueDate :=
                     (if FundValuation.isRealValue fv then FundValuation.netValueDate fv
                      else Fund.netValueDate fund),
                   Fund.estimatedValue := FundValuation.estimatedValue fv,
                   Fund.estimatedChange := FundValuation.estimatedChange fv,
                   Fund.updateTime := FundValuation.updateTime fv,
                   Fund.isRealValue := Some (FundValuation.isRealValue fv),
                   Fund.holdings := updatedHoldings \<rparr>
         | None \<Rightarrow>
             if hasStockQuotes then
               (let fundQuotes = List.map_filter (\<lambda>h. quoteMap (stockCode h)) (Fund.holdings fund);
                    calculatedValuation =
                      calculateValuation clock
                        \<lparr> FundDetail.code = Fund.code fund, name = Fund.name fund, type = js '''',
                          netValue = Fund.netValue fund, netValueDate = Fund.netValueDate fund,
                          holdings = Fund.holdings fund \<rparr>
                        fundQuotes
                in fund\<lparr> Fund.estimatedValue := Valuation.estimatedValue calculatedValuation,
                         Fund.estimatedChange := Valuation.estimatedChange calculatedValuation,
                         Fund.updateTime := Valuation.updateTime calculatedValuation,
                         Fund.isRealValue := Some False,
                         Fund.holdings := updatedHoldings \<rparr>)
             else fund)"

text \<open>\<open>valuations[index]\<close>: \<open>undefined\<close> beyond the end, which is falsy like \<open>null\<close>.\<close>

definition valuationAt :: "'v option list \<Rightarrow> nat \<Rightarrow> 'v option" where
  "valuationAt xs i = (if i < length xs then xs ! i else None)"

text \<open>
  \<open>updateAllValuations\<close>, on the list \<open>watchlist\<close> that \<open>storage.getWatchlist()\<close> returned. The
  result is what the call returns (\<open>Inr\<close>) or throws (\<open>Inl\<close>), with the calls it made. The
  operation given to \<open>batchExecute\<close> never rejects, so the branch for a rejected batch is there
  for completeness only.
\<close>

definition updateAllValuations ::
  "'a Collaborators \<Rightarrow> 'a Fund_scheme list \<Rightarrow>
   ((thrown + 'a Fund_scheme list) \<times> 'a Call list) option" where
  "updateAllValuations env watchlist =
     (if length watchlist = 0 then Some (Inr [], [])
      else
        case batchExecute (firstRejection env) watchlist
               (\<lambda>fund. Inr (getFundValuation env (Fund.code fund))) MAX_CONCURRENT_REQUESTS of
          None \<Rightarrow> None
        | Some (Inl e) \<Rightarrow> Some (Inl e, map (\<lambda>fund. GetFundValuation (Fund.code fund)) watchlist)
        | Some (Inr valuations) \<Rightarrow>
            (let calls1 = map (\<lambda>fund. GetFundValuation (Fund.code fund)) watchlist;
                 tradingDay =
                   list_ex (\<lambda>v. case v of None \<Rightarrow> False | Some fv \<Rightarrow> isTradingDay fv) valuations
             in if \<not> tradingDay then Some (Inr watchlist, calls1)
                else
                  (let allStockCodes = collectStockCodes watchlist;
                       quotes = getStockQuotes (fetchQuotes env) allStockCodes;
                       calls2 = calls1 @ [GetStockQuotes allStockCodes];
                       quoteMap = buildQuoteMap quotes;
                       hasStockQuotes = (length quotes > 0);
                       updatedFunds =
                         map (\<lambda>(fund, index).
                                updateFund (isoNow env) hasStockQuotes quoteMap
                                  (valuationAt valuations index) fund)
                           (zip watchlist [0..<length watchlist]);
                       calls3 = calls2 @ [SaveWatchlist updatedFunds]
                   in case saveWatchlist env updatedFunds of
                        Some e \<Rightarrow> Some (Inl e, calls3)
                      | None \<Rightarrow> Some (Inr updatedFunds, calls3))))"

section \<open>Scheduler (\<open>UpdateScheduler\<close> in update-scheduler.ts)\<close>

record SchedulerConfig =
  updateInterval :: int
  maxRetries :: int
  retryDelay :: int

definition DEFAULT_CONFIG :: SchedulerConfig where
  "DEFAULT_CONFIG = \<lparr> updateInterval = 60000, maxRetries = 3, retryDelay = 2000 \<rparr>"

record SchedulerStatus =
  isRunning :: bool
  lastUpdateTime :: "jsstring option"
  lastError :: "jsstring option"
  consecutiveErrors :: nat

record UpdateScheduler =
  config :: SchedulerConfig
  status :: SchedulerStatus

text \<open>
  What a cycle does to the outside: it arms a one-shot timer that calls \<open>executeUpdate()\<close>, or
  calls the IPC handler's \<open>sendValuationUpdate\<close> or \<open>sendError\<close>, the two notifications of
  the user interface.
\<close>

datatype 'a Effect =
  SetTimeout int
| SendValuationUpdate "'a Fund_scheme list"
| SendError jsstring

text \<open>
  Two more Chinese literals: the message used when what was thrown is not an \<open>Error\<close>
  ("unknown error"), and the text before the message in the notification ("network
  connection abnormal, check the network and retry", a space and an opening parenthesis).
\<close>

definition zhUnknownError :: jsstring where
  "zhUnknownError = [26410, 30693, 38169, 35823]"

definition zhCheckNetwork :: jsstring where
  "zhCheckNetwork = [32593, 32476, 36830, 25509, 24322, 24120, 65292, 35831, 26816, 26597, 32593,
     32476, 21518, 37325, 35797, 32, 40]"

definition handleUpdateError ::
  "thrown \<Rightarrow> UpdateScheduler \<Rightarrow> UpdateScheduler \<times> 'a Effect list" where
  "handleUpdateError error s =
     (let errorMessage =
            (case error of ThrownError e \<Rightarrow> errorMessage e | ThrownOther v \<Rightarrow> zhUnknownError);
          st = (status s)\<lparr> lastError := Some errorMessage,
                          consecutiveErrors := consecutiveErrors (status s) + 1 \<rparr>;
          s1 = s\<lparr> status := st \<rparr>
      in if int (consecutiveErrors st) < SchedulerConfig.maxRetries (UpdateScheduler.config s1)
         then (s1, [SetTimeout (retryDelay (UpdateScheduler.config s1))])
         else (s1, [SendError (zhCheckNetwork @ errorMessage @ js '')'')]))"

text \<open>
  \<open>executeUpdate(force)\<close>: \<open>clock\<close> is the local time the gate reads, \<open>outcome\<close> is how
  \<open>updateAllValuations\<close> ends in this cycle, \<open>stamp\<close> is \<open>new Date().toISOString()\<close>.
  The two notifications return without throwing.
\<close>

definition executeUpdate ::
  "bool \<Rightarrow> LocalTime \<Rightarrow> (thrown + 'a Fund_scheme list) \<Rightarrow> jsstring \<Rightarrow> UpdateScheduler \<Rightarrow>
   UpdateScheduler \<times> 'a Effect list" where
  "executeUpdate force clock outcome stamp s =
     (if \<not> force \<and> \<not> isMarketOpen clock then (s, [])
      else
        case outcome of
          Inr updatedFunds \<Rightarrow>
            (s\<lparr> status := (status s)\<lparr> lastUpdateTime := Some stamp, lastError := None,
                                      consecutiveErrors := 0 \<rparr> \<rparr>,
             [SendValuationUpdate updatedFunds])
        | Inl error \<Rightarrow> handleUpdateError error s)"

text \<open>Cycles one after the other, each with its own arguments; the effects are appended.\<close>

fun runCycles ::
  "(bool \<times> LocalTime \<times> (thrown + 'a Fund_scheme list) \<times> jsstring) list \<Rightarrow> UpdateScheduler \<Rightarrow>
   UpdateScheduler \<times> 'a Effect list" where
  "runCycles [] s = (s, [])"
| "runCycles ((force, clock, outcome, stamp) # rest) s =
     (case executeUpdate force clock outcome stamp s of
        (s1, effects1) \<Rightarrow>
          (case runCycles rest s1 of (s2, effects2) \<Rightarrow> (s2, effects1 @ effects2)))"

subsection \<open>Vocabulary of the error handler's properties\<close>

text \<open>The word lists of \<open>normalizeError\<close>, in the order in which it tries them.\<close>

definition networkWords :: "jsstring list" where
  "networkWords = [js ''network'', js ''timeout'', js ''econnrefused'', js ''enotfound'',
     js ''socket'', js ''fetch'']"

definition parseWords :: "jsstring list" where
  "parseWords = [js ''parse'', js ''json'', js ''syntax'']"

definition storageWords :: "jsstring list" where
  "storageWords = [js ''storage'', js ''file'', js ''permission'']"

definition notFoundWords :: "jsstring list" where
  "notFoundWords = [js ''not found'', zhNotFound]"

definition containsAny :: "jsstring \<Rightarrow> jsstring list \<Rightarrow> bool" where
  "containsAny m ws = list_ex (str_includes m) ws"

text \<open>The kind of the first row of a table one of whose words the message contains.\<close>

definition firstMatch :: "jsstring \<Rightarrow> (jsstring list \<times> ErrorType) list \<Rightarrow> ErrorType" where
  "firstMatch m table =
     (case find (\<lambda>(ws, k). containsAny m ws) table of
        Some (ws, k) \<Rightarrow> k
      | None \<Rightarrow> UNKNOWN)"

text \<open>Invocation \<open>k\<close> of the operation throws, and what it throws is classified retryable.\<close>

definition failsRetryably :: "(jsstring \<Rightarrow> jsstring) \<Rightarrow> (nat \<Rightarrow> thrown + 'a) \<Rightarrow> nat \<Rightarrow> bool" where
  "failsRetryably lc fn k =
     (case fn k of Inl t \<Rightarrow> AppError.retryable (normalizeError lc (asError t)) | Inr v \<Rightarrow> False)"

text \<open>The delays of \<open>n\<close> successive retries, the retry count being \<open>rc\<close> before the first.\<close>

definition backoffs :: "RetryConfig \<Rightarrow> nat \<Rightarrow> nat \<Rightarrow> real list" where
  "backoffs cfg rc n = map (\<lambda>j. calculateDelay cfg (int (rc + j))) [1..<Suc n]"

text \<open>
  Three operations for the examples: one that always fails with a network error, one that
  fails so three times and then resolves to 7, and one that fails with a network error and
  then with a parse error.
\<close>

definition alwaysFails :: "nat \<Rightarrow> thrown + nat" where
  "alwaysFails k = Inl (ThrownError (Error (js ''socket hang up'')))"

definition failsThrice :: "nat \<Rightarrow> thrown + nat" where
  "failsThrice k = (if k < 3 then Inl (ThrownError (Error (js ''socket hang up''))) else Inr 7)"

definition failsThenGarbage :: "nat \<Rightarrow> thrown + nat" where
  "failsThenGarbage k =
     (if k = 0 then Inl (ThrownError (Error (js ''socket hang up'')))
      else Inl (ThrownError (Error (js ''Unexpected token < in JSON''))))"

definition freshHandler :: "RetryConfig \<Rightarrow> ErrorHandler" where
  "freshHandler cfg = \<lparr> ErrorHandler.config = cfg, errorHistory = [] \<rparr>"

subsection \<open>Vocabulary of the refresh's and the scheduler's properties\<close>

text \<open>A cycle that runs (forced, or within market hours) and whose refresh throws.\<close>

definition runsAndFails :: "bool \<times> LocalTime \<times> (thrown + 'a Fund_scheme list) \<times> jsstring \<Rightarrow> bool" where
  "runsAndFails c = (case c of (force, clock, outcome, stamp) \<Rightarrow> (force \<or> isMarketOpen clock) \<and> isl outcome)"

text \<open>
  Examples: two funds with one holding each; a provider answer for a trading day; the
  collaborators when every provider fails, and when the provider answers for the first fund
  only and there are no quotes; a scheduler that has just been created, the same after two
  failures, and three forced cycles that fail.
\<close>

definition fundA :: Fund where
  "fundA =
     \<lparr> Fund.code = js ''000001'', name = js ''Alpha'', netValue = 3 / 2,
       netValueDate = js ''2024-01-01'', estimatedValue = 3 / 2, estimatedChange = 0,
       updateTime = js ''2024-01-01 15:00'', isRealValue = None,
       holdings = [\<lparr> stockCode = js ''600000'', stockName = js ''Bank'', ratio = 60,
                     change = 2, price = 10 \<rparr>] \<rparr>"

definition fundB :: Fund where
  "fundB =
     \<lparr> Fund.code = js ''000002'', name = js ''Beta'', netValue = 2,
       netValueDate = js ''2024-01-01'', estimatedValue = 2, estimatedChange = 1,
       updateTime = js ''2024-01-01 15:00'', isRealValue = Some False,
       holdings = [\<lparr> stockCode = js ''000858'', stockName = js ''Liquor'', ratio = 40,
                     change = - 1, price = 20 \<rparr>] \<rparr>"

definition liveValuation :: FundValuation where
  "liveValuation =
     \<lparr> FundValuation.netValue = 8 / 5, netValueDate = js ''2024-01-02'', estimatedValue = 17 / 10,
       estimatedChange = 1 / 2, updateTime = js ''2024-01-03 10:00'', isRealValue = False,
       isTradingDay = True \<rparr>"

definition closedEnv :: "unit Collaborators" where
  "closedEnv =
     \<lparr> getFundValuation = (\<lambda>c. None), fetchQuotes = (\<lambda>cs. []), isoNow = js ''2024-01-03T02:00'',
       saveWatchlist = (\<lambda>funds. None), firstRejection = hd \<rparr>"

definition partialEnv :: "unit Collaborators" where
  "partialEnv =
     closedEnv\<lparr> getFundValuation := (\<lambda>c. if c = js ''000001'' then Some liveValuation else None) \<rparr>"

definition idleScheduler :: UpdateScheduler where
  "idleScheduler =
     \<lparr> UpdateScheduler.config = DEFAULT_CONFIG,
       status = \<lparr> isRunning = True, lastUpdateTime = None, lastError = None,
                  consecutiveErrors = 0 \<rparr> \<rparr>"

definition strainedScheduler :: UpdateScheduler where
  "strainedScheduler =
     idleScheduler\<lparr> status := (status idleScheduler)\<lparr> lastError := Some (js ''boom''),
                                                      consecutiveErrors := 2 \<rparr> \<rparr>"

definition boom :: thrown where
  "boom = ThrownError (Error (js ''boom''))"

definition failedCycle :: "bool \<times> LocalTime \<times> (thrown + Fund list) \<times> jsstring" where
  "failedCycle = (True, \<lparr> day = 0, hours = 3, minutes = 0 \<rparr>, Inl boom, js ''2024-01-03T02:00'')"

section \<open>Properties\<close>

subsection \<open>Substring test\<close>

lemma str_includes_iff: "str_includes s t \<longleftrightarrow> sublist t s"
  by (induction s) (auto simp: sublist_Cons_right)

subsection \<open>Valuation calculator\<close>

lemma weightedLoop_eq:
  "weightedLoop q hs tc mc =
     (tc + (\<Sum>h\<leftarrow>matched q hs. StockQuote.change (the (q (stockCode h))) * (ratio h / 100)),
      mc + length (matched q hs))"
  by (induction hs arbitrary: tc mc) (auto simp: matched_def split: option.splits)

text \<open>
  C1. The estimated change is the sum, over the holdings with a quote, of the quote's change
  times the holding's ratio divided by 100; the result is complete exactly when every holding
  is matched and there is at least one holding; an empty list gives 0 and incomplete; and the
  estimated value is the net value times one plus the change over 100.
\<close>

theorem calculateWeightedChange_spec:
  "fst (calculateWeightedChange hs q) =
     (\<Sum>h\<leftarrow>matched q hs. StockQuote.change (the (q (stockCode h))) * (ratio h / 100))
   \<and> (snd (calculateWeightedChange hs q) \<longleftrightarrow> length (matched q hs) = length hs \<and> length hs > 0)
   \<and> calculateWeightedChange [] q = (0, False)
   \<and> calculateEstimatedValue nv ec = nv * (1 + ec / 100)"
  by (simp add: calculateWeightedChange_def weightedLoop_eq calculateEstimatedValue_def matched_def)

subsection \<open>Error classification\<close>

lemma normalizeError_type:
  "AppError.type (normalizeError lc (Error msg)) =
     (if containsAny (lc msg) networkWords then NETWORK
      else if containsAny (lc msg) parseWords then PARSE
      else if containsAny (lc msg) storageWords then STORAGE
      else if containsAny (lc msg) notFoundWords then NOT_FOUND
      else UNKNOWN)"
  by (simp add: containsAny_def networkWords_def parseWords_def storageWords_def
      notFoundWords_def NetworkError_def ParseError_def StorageError_def NotFoundError_def
      newAppError_def Let_def normalizeError.simps)

lemma normalizeError_retryable:
  "AppError.retryable (normalizeError lc (Error msg)) =
     (containsAny (lc msg) networkWords \<or>
      (\<not> containsAny (lc msg) parseWords \<and> containsAny (lc msg) storageWords))"
  by (simp add: containsAny_def networkWords_def parseWords_def storageWords_def
      notFoundWords_def NetworkError_def ParseError_def StorageError_def NotFoundError_def
      newAppError_def Let_def normalizeError.simps)

text \<open>
  C3. For a failure that is not yet classified, with \<open>m\<close> its lowercased message: a network
  word in \<open>m\<close> gives the network kind, retryable; otherwise a parse word gives the parse
  kind, not retryable; otherwise a storage word gives the storage kind, retryable; otherwise
  "not found" or its Chinese form gives the not-found kind, not retryable; otherwise the kind
  is unknown, not retryable. A classified failure is returned as it is, so classifying twice
  is classifying once.
\<close>

theorem normalizeError_spec:
  "(let m = toLowerCase msg; r = normalizeError toLowerCase (Error msg) in
     (containsAny m networkWords \<longrightarrow> AppError.type r = NETWORK \<and> AppError.retryable r) \<and>
     (\<not> containsAny m networkWords \<and> containsAny m parseWords \<longrightarrow>
        AppError.type r = PARSE \<and> \<not> AppError.retryable r) \<and>
     (\<not> containsAny m networkWords \<and> \<not> containsAny m parseWords \<and> containsAny m storageWords \<longrightarrow>
        AppError.type r = STORAGE \<and> AppError.retryable r) \<and>
     (\<not> containsAny m networkWords \<and> \<not> containsAny m parseWords \<and>
      \<not> containsAny m storageWords \<and> containsAny m notFoundWords \<longrightarrow>
        AppError.type r = NOT_FOUND \<and> \<not> AppError.retryable r) \<and>
     (\<not> containsAny m networkWords \<and> \<not> containsAny m parseWords \<and>
      \<not> containsAny m storageWords \<and> \<not> containsAny m notFoundWords \<longrightarrow>
        AppError.type r = UNKNOWN \<and> \<not> AppError.retryable r))
   \<and> normalizeError toLowerCase (IsAppError a) = a
   \<and> normalizeError toLowerCase (IsAppError (normalizeError toLowerCase e)) =
       normalizeError toLowerCase e"
  unfolding Let_def normalizeError_type normalizeError_retryable
  by (simp add: normalizeError.simps)

theorem normalizeError_spec_witness:
  "containsAny (asciiLower (js ''Request Timeout'')) networkWords
   \<and> AppError.type (normalizeError asciiLower (Error (js ''Request Timeout''))) = NETWORK
   \<and> AppError.retryable (normalizeError asciiLower (Error (js ''Request Timeout'')))
   \<and> containsAny (asciiLower (js ''Bad JSON'')) parseWords
   \<and> AppError.type (normalizeError asciiLower (Error (js ''Bad JSON''))) = PARSE
   \<and> \<not> AppError.retryable (normalizeError asciiLower (Error (js ''Bad JSON'')))
   \<and> containsAny (asciiLower (js ''Permission denied'')) storageWords
   \<and> AppError.type (normalizeError asciiLower (Error (js ''Permission denied''))) = STORAGE
   \<and> AppError.retryable (normalizeError asciiLower (Error (js ''Permission denied'')))
   \<and> containsAny (asciiLower (js ''Fund Not Found'')) notFoundWords
   \<and> AppError.type (normalizeError asciiLower (Error (js ''Fund Not Found''))) = NOT_FOUND
   \<and> \<not> AppError.retryable (normalizeError asciiLower (Error (js ''Fund Not Found'')))
   \<and> AppError.type (normalizeError asciiLower (Error (js ''boom''))) = UNKNOWN
   \<and> \<not> AppError.retryable (normalizeError asciiLower (Error (js ''boom'')))
   \<and> normalizeError asciiLower (IsAppError (NotFoundError (js ''socket''))) =
       NotFoundError (js ''socket'')"
proof -
  have c: "containsAny (asciiLower (js ''Request Timeout'')) networkWords"
    "\<not> containsAny (asciiLower (js ''Bad JSON'')) networkWords"
    "containsAny (asciiLower (js ''Bad JSON'')) parseWords"
    "\<not> containsAny (asciiLower (js ''Permission denied'')) networkWords"
    "\<not> containsAny (asciiLower (js ''Permission denied'')) parseWords"
    "containsAny (asciiLower (js ''Permission denied'')) storageWords"
    "\<not> containsAny (asciiLower (js ''Fund Not Found'')) networkWords"
    "\<not> containsAny (asciiLower (js ''Fund Not Found'')) parseWords"
    "\<not> containsAny (asciiLower (js ''Fund Not Found'')) storageWords"
    "containsAny (asciiLower (js ''Fund Not Found'')) notFoundWords"
    "\<not> containsAny (asciiLower (js ''boom'')) networkWords"
    "\<not> containsAny (asciiLower (js ''boom'')) parseWords"
    "\<not> containsAny (asciiLower (js ''boom'')) storageWords"
    "\<not> containsAny (asciiLower (js ''boom'')) notFoundWords"
    by (simp_all add: containsAny_def networkWords_def parseWords_def storageWords_def
        notFoundWords_def zhNotFound_def js_def asciiLower_def)
  note s1 = normalizeError_spec [of asciiLower "js ''Request Timeout''"
      "NotFoundError (js ''socket'')", unfolded Let_def]
  note s2 = normalizeError_spec [of asciiLower "js ''Bad JSON''", unfolded Let_def]
  note s3 = normalizeError_spec [of asciiLower "js ''Permission denied''", unfolded Let_def]
  note s4 = normalizeError_spec [of asciiLower "js ''Fund Not Found''", unfolded Let_def]
  note s5 = normalizeError_spec [of asciiLower "js ''boom''", unfolded Let_def]
  note r1 = s1 [THEN conjunct1, THEN conjunct1, THEN mp, OF c(1)]
  note r2 = s2 [THEN conjunct1, THEN conjunct2, THEN conjunct1, THEN mp, OF conjI [OF c(2) c(3)]]
  note r3 = s3 [THEN conjunct1, THEN conjunct2, THEN conjunct2, THEN conjunct1, THEN mp,
      OF conjI [OF c(4) conjI [OF c(5) c(6)]]]
  note r4 = s4 [THEN conjunct1, THEN conjunct2, THEN conjunct2, THEN conjunct2, THEN conjunct1,
      THEN mp, OF conjI [OF c(7) conjI [OF c(8) conjI [OF c(9) c(10)]]]]
  note r5 = s5 [THEN conjunct1, THEN conjunct2, THEN conjunct2, THEN conjunct2, THEN conjunct2,
      THEN mp, OF conjI [OF c(11) conjI [OF c(12) conjI [OF c(13) c(14)]]]]
  note r6 = s1 [THEN conjunct2, THEN conjunct1]
  from c(1) r1 c(3) r2 c(6) r3 c(10) r4 r5 r6 show ?thesis
    by (simp only: simp_thms)
qed

text \<open>
  C10. The kind is that of the first of the four word lists, tried in the order network,
  parse, storage, not found, one of whose words the lowercased message contains (unknown when
  there is none); so a message with both "fetch" and "json" is of the network kind and
  retryable.
\<close>

theorem normalizeError_order:
  "AppError.type (normalizeError toLowerCase (Error msg)) =
     firstMatch (toLowerCase msg)
       [(networkWords, NETWORK), (parseWords, PARSE), (storageWords, STORAGE),
        (notFoundWords, NOT_FOUND)]
   \<and> (str_includes (toLowerCase msg) (js ''fetch'') \<and> str_includes (toLowerCase msg) (js ''json'') \<longrightarrow>
        AppError.type (normalizeError toLowerCase (Error msg)) = NETWORK \<and>
        AppError.retryable (normalizeError toLowerCase (Error msg)))"
  unfolding normalizeError_type normalizeError_retryable
  by (simp add: firstMatch_def) (simp add: containsAny_def networkWords_def)

theorem normalizeError_order_witness:
  "str_includes (asciiLower (js ''Failed to fetch JSON'')) (js ''fetch'')
   \<and> str_includes (asciiLower (js ''Failed to fetch JSON'')) (js ''json'')
   \<and> AppError.type (normalizeError asciiLower (Error (js ''Failed to fetch JSON''))) = NETWORK
   \<and> AppError.retryable (normalizeError asciiLower (Error (js ''Failed to fetch JSON'')))"
proof -
  have c: "str_includes (asciiLower (js ''Failed to fetch JSON'')) (js ''fetch'')"
    "str_includes (asciiLower (js ''Failed to fetch JSON'')) (js ''json'')"
    by (simp_all add: js_def asciiLower_def)
  note r = normalizeError_order [of asciiLower "js ''Failed to fetch JSON''", THEN conjunct2,
      THEN mp, OF conjI [OF c]]
  from c r show ?thesis
    by (simp only: simp_thms)
qed

subsection \<open>Retry\<close>

lemma backoffs_0: "backoffs cfg rc 0 = []"
  by (simp add: backoffs_def)

lemma backoffs_Suc: "backoffs cfg rc (Suc n) = calculateDelay cfg (int rc + 1) # backoffs cfg (Suc rc) n"
proof -
  have *: "[1..<Suc (Suc n)] = 1 # map Suc [1..<Suc n]"
    by (simp add: map_Suc_upt upt_conv_Cons del: upt_Suc)
  show ?thesis
    unfolding backoffs_def *
    by (simp add: comp_def add.assoc add.commute add.left_commute del: upt_Suc)
qed

lemma backoffs_length: "length (backoffs cfg rc n) = n"
  by (simp add: backoffs_def)

lemma backoffs_nth: "i < n \<Longrightarrow> backoffs cfg rc n ! i = calculateDelay cfg (int (rc + Suc i))"
  unfolding backoffs_def by (simp add: nth_append add.assoc add.commute add.left_commute del: upt_Suc)

lemma RetryTrace_updates: "tr\<lparr> attempts := a, sleeps := s \<rparr> = \<lparr> attempts = a, sleeps = s \<rparr>"
  by (cases tr) simp

lemma withRetryLoop_step:
  assumes "fn (attempts tr) = Inl t" "AppError.retryable (normalizeError lc (asError t))"
    "int rc + 1 \<le> RetryConfig.maxRetries (ErrorHandler.config h)"
  shows "withRetryLoop lc now fn ctx le rc h tr =
         withRetryLoop lc now fn ctx (Some (asError t)) (Suc rc) h
           \<lparr> attempts = Suc (attempts tr), sleeps = sleeps tr @ [calculateDelay (ErrorHandler.config h) (int rc + 1)] \<rparr>"
  using assms by (subst withRetryLoop.simps) (simp add: Let_def RetryTrace_updates add.commute)

lemma withRetryLoop_unroll:
  assumes "\<forall>j<n. failsRetryably lc fn (attempts tr + j)" "int (rc + n) \<le> RetryConfig.maxRetries (ErrorHandler.config h)"
  shows "withRetryLoop lc now fn ctx le rc h tr =
         withRetryLoop lc now fn ctx
           (if n = 0 then le else Some (asError (projl (fn (attempts tr + n - 1))))) (rc + n) h
           \<lparr> attempts = attempts tr + n, sleeps = sleeps tr @ backoffs (ErrorHandler.config h) rc n \<rparr>"
  using assms
proof (induction n arbitrary: le rc tr)
  case 0
  show ?case by (cases tr) (simp add: backoffs_0)
next
  case (Suc n)
  from Suc.prems(1) [rule_format, of 0] have "failsRetryably lc fn (attempts tr)"
    by simp
  then obtain t where t: "fn (attempts tr) = Inl t" "AppError.retryable (normalizeError lc (asError t))"
    by (auto simp: failsRetryably_def split: sum.splits)
  let ?tr1 = "\<lparr> attempts = Suc (attempts tr), sleeps = sleeps tr @ [calculateDelay (ErrorHandler.config h) (int rc + 1)] \<rparr>"
  have step: "withRetryLoop lc now fn ctx le rc h tr =
      withRetryLoop lc now fn ctx (Some (asError t)) (Suc rc) h ?tr1"
    using t Suc.prems(2) by (intro withRetryLoop_step) auto
  have rest: "\<forall>j<n. failsRetryably lc fn (attempts ?tr1 + j)"
  proof (intro allI impI)
    fix j assume "j < n"
    then show "failsRetryably lc fn (attempts ?tr1 + j)"
      using Suc.prems(1) [rule_format, of "Suc j"] by simp
  qed
  have bound: "int (Suc rc + n) \<le> RetryConfig.maxRetries (ErrorHandler.config h)"
    using Suc.prems(2) by simp
  have "withRetryLoop lc now fn ctx (Some (asError t)) (Suc rc) h ?tr1 =
      withRetryLoop lc now fn ctx
        (if n = 0 then Some (asError t) else Some (asError (projl (fn (attempts ?tr1 + n - 1)))))
        (Suc rc + n) h
        \<lparr> attempts = attempts ?tr1 + n, sleeps = sleeps ?tr1 @ backoffs (ErrorHandler.config h) (Suc rc) n \<rparr>"
    by (rule Suc.IH [OF rest bound])
  also have "\<dots> = withRetryLoop lc now fn ctx
        (Some (asError (projl (fn (attempts tr + Suc n - 1))))) (rc + Suc n) h
        \<lparr> attempts = attempts tr + Suc n, sleeps = sleeps tr @ backoffs (ErrorHandler.config h) rc (Suc n) \<rparr>"
    using t(1) by (cases n) (simp_all add: backoffs_Suc)
  finally show ?case
    using step by simp
qed

lemma sleeps_prefix:
  "prefix (sleeps tr) (sleeps (snd (snd (withRetryLoop lc now fn ctx le rc h tr))))"
proof (induction lc now fn ctx le rc h tr rule: withRetryLoop.induct)
  case (1 lc now fn ctx le rc h tr)
  show ?case
  proof (cases "int rc \<le> RetryConfig.maxRetries (ErrorHandler.config h)")
    case False
    then show ?thesis by (subst withRetryLoop.simps) simp
  next
    case le: True
    show ?thesis
    proof (cases "fn (attempts tr)")
      case (Inr v)
      with le show ?thesis by (subst withRetryLoop.simps) simp
    next
      case (Inl t)
      show ?thesis
      proof (cases "AppError.retryable (normalizeError lc (asError t)) \<and>
                    int rc + 1 \<le> RetryConfig.maxRetries (ErrorHandler.config h)")
        case False
        with le Inl show ?thesis
          by (subst withRetryLoop.simps) (auto simp: Let_def)
      next
        case True
        let ?tr1 = "\<lparr> attempts = Suc (attempts tr),
                      sleeps = sleeps tr @ [calculateDelay (ErrorHandler.config h) (int rc + 1)] \<rparr>"
        have "prefix (sleeps ?tr1)
                (sleeps (snd (snd (withRetryLoop lc now fn ctx (Some (asError t)) (Suc rc) h ?tr1))))"
          using "1.IH" [OF le Inl refl refl refl _ refl] True
          by (simp add: RetryTrace_updates add.commute)
        then have "prefix (sleeps tr)
                (sleeps (snd (snd (withRetryLoop lc now fn ctx (Some (asError t)) (Suc rc) h ?tr1))))"
          by (auto dest: append_prefixD)
        then show ?thesis
          using withRetryLoop_step [where fn = fn and tr = tr and t = t and lc = lc and rc = rc
              and h = h and now = now and ctx = ctx and le = le] Inl True
          by simp
      qed
    qed
  qed
qed

lemma calculateDelay_pos:
  "1 \<le> k \<Longrightarrow> calculateDelay cfg (int k) =
     min (baseDelay cfg * backoffMultiplier cfg ^ (k - 1)) (maxDelay cfg)"
  by (simp add: calculateDelay_def power_int_def nat_diff_distrib')

lemma withRetry_unroll:
  assumes "\<forall>j<n. failsRetryably lc fn j" "int n \<le> RetryConfig.maxRetries (ErrorHandler.config h)"
  shows "withRetry lc now h fn ctx =
         withRetryLoop lc now fn ctx
           (if n = 0 then None else Some (asError (projl (fn (n - 1))))) n h
           \<lparr> attempts = n, sleeps = backoffs (ErrorHandler.config h) 0 n \<rparr>"
  unfolding withRetry_def
  using withRetryLoop_unroll [of n lc fn "\<lparr> attempts = 0, sleeps = [] \<rparr>" 0 h now ctx None] assms
  by simp

lemma withRetry_sleep_nth:
  assumes "1 \<le> k" "int k \<le> RetryConfig.maxRetries (ErrorHandler.config h)" "\<forall>j<k. failsRetryably lc fn j"
  shows "sleeps (snd (snd (withRetry lc now h fn ctx))) ! (k - 1) = calculateDelay (ErrorHandler.config h) (int k)"
proof -
  have "prefix (backoffs (ErrorHandler.config h) 0 k) (sleeps (snd (snd (withRetry lc now h fn ctx))))"
    unfolding withRetry_unroll [OF assms(3) assms(2)]
    using sleeps_prefix [where tr = "\<lparr> attempts = k, sleeps = backoffs (ErrorHandler.config h) 0 k \<rparr>"
        and lc = lc and now = now and fn = fn and ctx = ctx and rc = k and h = h
        and le = "if k = 0 then None else Some (asError (projl (fn (k - 1))))"]
    by simp
  then obtain zs where "sleeps (snd (snd (withRetry lc now h fn ctx))) = backoffs (ErrorHandler.config h) 0 k @ zs"
    by (auto simp: prefix_def)
  then show ?thesis
    using assms(1) by (simp add: nth_append backoffs_length backoffs_nth)
qed

lemma withRetry_terminal:
  assumes "\<forall>j<k. failsRetryably lc fn j" "int k \<le> RetryConfig.maxRetries (ErrorHandler.config h)"
    "fn k = Inl t" "\<not> AppError.retryable (normalizeError lc (asError t))"
  shows "withRetry lc now h fn ctx =
     (Inl (Some (IsAppError (normalizeError lc (asError t)))),
      recordError now (normalizeError lc (asError t)) k h,
      \<lparr> attempts = k + 1, sleeps = backoffs (ErrorHandler.config h) 0 k \<rparr>)"
  unfolding withRetry_unroll [OF assms(1) assms(2)]
  using assms(2-) by (subst withRetryLoop.simps) (simp add: Let_def)

lemma withRetry_exhausted:
  assumes "\<forall>j\<le>n. failsRetryably lc fn j" "RetryConfig.maxRetries (ErrorHandler.config h) = int n"
  shows "withRetry lc now h fn ctx =
     (let lastError = asError (projl (fn n)); appError = normalizeError lc lastError in
      (Inl (Some (IsAppError
         (newAppError (ctx @ zhFailedRetried @ intToString (int n) @ zhTimes @ AppError.message appError)
            (AppError.type appError) False (Some lastError)))),
       recordError now appError n h,
       \<lparr> attempts = n + 1, sleeps = backoffs (ErrorHandler.config h) 0 n \<rparr>))"
proof -
  have pre: "\<forall>j<n. failsRetryably lc fn j" using assms(1) by simp
  have bound: "int n \<le> RetryConfig.maxRetries (ErrorHandler.config h)" using assms(2) by simp
  from assms(1) have "failsRetryably lc fn n" by simp
  then obtain t where t: "fn n = Inl t" "AppError.retryable (normalizeError lc (asError t))"
    by (auto simp: failsRetryably_def split: sum.splits)
  show ?thesis
    unfolding withRetry_unroll [OF pre bound]
    using t assms(2) by (subst withRetryLoop.simps) (simp add: Let_def exhaustedMessage_def)
qed

lemma withRetry_zero:
  assumes "RetryConfig.maxRetries (ErrorHandler.config h) = 0"
  shows "attempts (snd (snd (withRetry lc now h fn ctx))) = 1 \<and>
         sleeps (snd (snd (withRetry lc now h fn ctx))) = []"
  unfolding withRetry_def
  using assms by (subst withRetryLoop.simps, simp add: Let_def split: sum.splits)+

lemma recordError_last:
  "last (errorHistory (recordError now e rc h)) =
     \<lparr> type = AppError.type e, message = AppError.message e, retryable = AppError.retryable e,
       timestamp = now, retryCount = rc \<rparr>"
  by (cases "errorHistory h") (simp_all add: recordError_def toErrorState_def Let_def maxHistorySize_def)

lemma socket_network:
  "normalizeError asciiLower (Error (js ''socket hang up'')) =
     NetworkError zhNetwork (Some (Error (js ''socket hang up'')))"
  by (simp add: normalizeError.simps getNetworkErrorMessage_def js_def asciiLower_def)

lemma garbage_parse:
  "normalizeError asciiLower (Error (js ''Unexpected token < in JSON'')) =
     ParseError zhParseFailed (Some (Error (js ''Unexpected token < in JSON'')))"
  by (simp add: normalizeError.simps js_def asciiLower_def)

lemma alwaysFails_retryably: "failsRetryably asciiLower alwaysFails j"
  by (simp add: failsRetryably_def alwaysFails_def socket_network NetworkError_def)

lemma failsThrice_retryably: "j < 3 \<Longrightarrow> failsRetryably asciiLower failsThrice j"
  by (simp add: failsRetryably_def failsThrice_def socket_network NetworkError_def)

lemma default_backoffs:
  "backoffs DEFAULT_RETRY_CONFIG 0 (Suc 0) = [1000]"
  "backoffs DEFAULT_RETRY_CONFIG 0 3 = [1000, 2000, 4000]"
  by (simp_all add: backoffs_Suc backoffs_0 numeral_3_eq_3 calculateDelay_def DEFAULT_RETRY_CONFIG_def)

lemma intToString_3: "intToString 3 = js ''3''"
  by (simp add: intToString_def natToString.simps js_def)

text \<open>
  C2. Let the first \<open>k\<close> invocations fail with retryable errors, \<open>k\<close> at most
  \<open>maxRetries\<close>. If the next one fails with an error classified as not retryable, \<open>withRetry\<close>
  throws the classified error and records it with retry count \<open>k\<close>; it has invoked the
  operation \<open>k + 1\<close> times and slept only the \<open>k\<close> delays before, none after. If the first
  invocation and all \<open>maxRetries\<close> retries fail with retryable errors, that is after
  \<open>maxRetries + 1\<close> retryable failures, \<open>withRetry\<close> throws a new error, not retryable,
  whose message is the context, the number \<open>maxRetries\<close> of retries and the message of the last
  classified error, and records that error. With \<open>maxRetries = 0\<close> the operation is invoked
  exactly once and there is no delay. A recorded error is the last entry of the history.
\<close>

theorem withRetry_spec:
  "((\<forall>j<k. failsRetryably lc fn j) \<and> int k \<le> RetryConfig.maxRetries (ErrorHandler.config h) \<and> fn k = Inl t \<and>
     \<not> AppError.retryable (normalizeError lc (asError t)) \<longrightarrow>
      withRetry lc now h fn ctx =
        (Inl (Some (IsAppError (normalizeError lc (asError t)))),
         recordError now (normalizeError lc (asError t)) k h,
         \<lparr> attempts = k + 1, sleeps = backoffs (ErrorHandler.config h) 0 k \<rparr>))
   \<and> ((\<forall>j\<le>n. failsRetryably lc fn2 j) \<and> RetryConfig.maxRetries (ErrorHandler.config h2) = int n \<longrightarrow>
      withRetry lc now h2 fn2 ctx =
        (let lastError = asError (projl (fn2 n)); appError = normalizeError lc lastError in
         (Inl (Some (IsAppError
            (newAppError
               (ctx @ zhFailedRetried @ intToString (int n) @ zhTimes @ AppError.message appError)
               (AppError.type appError) False (Some lastError)))),
          recordError now appError n h2,
          \<lparr> attempts = n + 1, sleeps = backoffs (ErrorHandler.config h2) 0 n \<rparr>)))
   \<and> (RetryConfig.maxRetries (ErrorHandler.config h0) = 0 \<longrightarrow>
        attempts (snd (snd (withRetry lc now h0 fn0 ctx))) = 1 \<and>
        sleeps (snd (snd (withRetry lc now h0 fn0 ctx))) = [])
   \<and> last (errorHistory (recordError now e rc h)) =
        \<lparr> type = AppError.type e, message = AppError.message e,
          retryable = AppError.retryable e, timestamp = now, retryCount = rc \<rparr>"
proof (intro conjI impI)
  assume "(\<forall>j<k. failsRetryably lc fn j) \<and> int k \<le> RetryConfig.maxRetries (ErrorHandler.config h) \<and> fn k = Inl t \<and>
     \<not> AppError.retryable (normalizeError lc (asError t))"
  then show "withRetry lc now h fn ctx =
        (Inl (Some (IsAppError (normalizeError lc (asError t)))),
         recordError now (normalizeError lc (asError t)) k h,
         \<lparr> attempts = k + 1, sleeps = backoffs (ErrorHandler.config h) 0 k \<rparr>)"
    by (intro withRetry_terminal) simp_all
next
  assume "(\<forall>j\<le>n. failsRetryably lc fn2 j) \<and> RetryConfig.maxRetries (ErrorHandler.config h2) = int n"
  then show "withRetry lc now h2 fn2 ctx =
        (let lastError = asError (projl (fn2 n)); appError = normalizeError lc lastError in
         (Inl (Some (IsAppError
            (newAppError
               (ctx @ zhFailedRetried @ intToString (int n) @ zhTimes @ AppError.message appError)
               (AppError.type appError) False (Some lastError)))),
          recordError now appError n h2,
          \<lparr> attempts = n + 1, sleeps = backoffs (ErrorHandler.config h2) 0 n \<rparr>))"
    by (intro withRetry_exhausted) simp_all
next
  assume "RetryConfig.maxRetries (ErrorHandler.config h0) = 0"
  then show "attempts (snd (snd (withRetry lc now h0 fn0 ctx))) = 1"
    "sleeps (snd (snd (withRetry lc now h0 fn0 ctx))) = []"
    using withRetry_zero by blast+
next
  show "last (errorHistory (recordError now e rc h)) =
        \<lparr> type = AppError.type e, message = AppError.message e,
          retryable = AppError.retryable e, timestamp = now, retryCount = rc \<rparr>"
    by (rule recordError_last)
qed

theorem withRetry_spec_witness:
  "fst (withRetry asciiLower (js ''t0'') (freshHandler DEFAULT_RETRY_CONFIG) failsThenGarbage
      (js ''op'')) =
     Inl (Some (IsAppError
       (ParseError zhParseFailed (Some (Error (js ''Unexpected token < in JSON''))))))
   \<and> snd (snd (withRetry asciiLower (js ''t0'') (freshHandler DEFAULT_RETRY_CONFIG)
        failsThenGarbage (js ''op''))) = \<lparr> attempts = 2, sleeps = [1000] \<rparr>
   \<and> fst (withRetry asciiLower (js ''t0'') (freshHandler DEFAULT_RETRY_CONFIG) alwaysFails
        (js ''op'')) =
     Inl (Some (IsAppError
       (newAppError (js ''op'' @ zhFailedRetried @ js ''3'' @ zhTimes @ zhNetwork) NETWORK False
          (Some (Error (js ''socket hang up''))))))
   \<and> snd (snd (withRetry asciiLower (js ''t0'') (freshHandler DEFAULT_RETRY_CONFIG) alwaysFails
        (js ''op''))) = \<lparr> attempts = 4, sleeps = [1000, 2000, 4000] \<rparr>
   \<and> snd (snd (withRetry asciiLower (js ''t0'')
        (freshHandler (DEFAULT_RETRY_CONFIG\<lparr> RetryConfig.maxRetries := 0 \<rparr>)) alwaysFails (js ''op''))) =
     \<lparr> attempts = 1, sleeps = [] \<rparr>"
proof -
  let ?h = "freshHandler DEFAULT_RETRY_CONFIG"
  let ?hz = "freshHandler (DEFAULT_RETRY_CONFIG\<lparr> RetryConfig.maxRetries := 0 \<rparr>)"
  let ?g = "ThrownError (Error (js ''Unexpected token < in JSON''))"
  note spec = withRetry_spec [of 1 asciiLower failsThenGarbage ?h ?g "js ''t0''" "js ''op''"
      3 alwaysFails ?h ?hz alwaysFails]
  have cfg: "ErrorHandler.config ?h = DEFAULT_RETRY_CONFIG" "RetryConfig.maxRetries (ErrorHandler.config ?h) = 3"
    "RetryConfig.maxRetries (ErrorHandler.config ?hz) = 0"
    by (simp_all add: freshHandler_def DEFAULT_RETRY_CONFIG_def)
  have h1: "(\<forall>j<1. failsRetryably asciiLower failsThenGarbage j) \<and>
      int 1 \<le> RetryConfig.maxRetries (ErrorHandler.config ?h) \<and> failsThenGarbage 1 = Inl ?g \<and>
      \<not> AppError.retryable (normalizeError asciiLower (asError ?g))"
    by (simp add: cfg(2) failsRetryably_def failsThenGarbage_def socket_network garbage_parse
        NetworkError_def ParseError_def)
  have h2: "(\<forall>j\<le>3. failsRetryably asciiLower alwaysFails j) \<and> RetryConfig.maxRetries (ErrorHandler.config ?h) = int 3"
    by (simp add: cfg(2) alwaysFails_retryably)
  note r1 = spec [THEN conjunct1, THEN mp, OF h1]
  note r2 = spec [THEN conjunct2, THEN conjunct1, THEN mp, OF h2]
  note r3 = spec [THEN conjunct2, THEN conjunct2, THEN conjunct1, THEN mp, OF cfg(3)]
  have t1: "snd (snd (withRetry asciiLower (js ''t0'') ?hz alwaysFails (js ''op''))) =
     \<lparr> attempts = 1, sleeps = [] \<rparr>"
    using r3 by (cases "snd (snd (withRetry asciiLower (js ''t0'') ?hz alwaysFails (js ''op'')))") simp
  have e1: "withRetry asciiLower (js ''t0'') ?h failsThenGarbage (js ''op'') =
      (Inl (Some (IsAppError
         (ParseError zhParseFailed (Some (Error (js ''Unexpected token < in JSON'')))))),
       recordError (js ''t0'')
         (ParseError zhParseFailed (Some (Error (js ''Unexpected token < in JSON'')))) 1 ?h,
       \<lparr> attempts = 2, sleeps = [1000] \<rparr>)"
    using r1 by (simp add: cfg(1) default_backoffs garbage_parse)
  have e2: "withRetry asciiLower (js ''t0'') ?h alwaysFails (js ''op'') =
      (Inl (Some (IsAppError
         (newAppError (js ''op'' @ zhFailedRetried @ js ''3'' @ zhTimes @ zhNetwork) NETWORK False
            (Some (Error (js ''socket hang up'')))))),
       recordError (js ''t0'') (NetworkError zhNetwork (Some (Error (js ''socket hang up'')))) 3 ?h,
       \<lparr> attempts = 4, sleeps = [1000, 2000, 4000] \<rparr>)"
    using r2
    by (simp add: cfg(1) Let_def default_backoffs socket_network intToString_3 alwaysFails_def)
      (simp add: NetworkError_def)
  show ?thesis
    unfolding e1 e2 t1 by simp
qed

text \<open>
  With the default configuration (\<open>maxRetries = 3\<close>), three retryable failures do not end
  \<open>withRetry\<close>: it makes a fourth attempt, whose value it returns; and when every attempt
  fails it has made four attempts, not three.
\<close>

theorem withRetry_counterexample:
  "RetryConfig.maxRetries (ErrorHandler.config (freshHandler DEFAULT_RETRY_CONFIG)) = 3
   \<and> failsRetryably asciiLower failsThrice 0
   \<and> failsRetryably asciiLower failsThrice 1
   \<and> failsRetryably asciiLower failsThrice 2
   \<and> fst (withRetry asciiLower (js ''t0'') (freshHandler DEFAULT_RETRY_CONFIG) failsThrice
        (js ''op'')) = Inr 7
   \<and> attempts (snd (snd (withRetry asciiLower (js ''t0'') (freshHandler DEFAULT_RETRY_CONFIG)
        alwaysFails (js ''op'')))) = 4"
proof -
  have m: "RetryConfig.maxRetries (ErrorHandler.config (freshHandler DEFAULT_RETRY_CONFIG)) = 3"
    by (simp add: freshHandler_def DEFAULT_RETRY_CONFIG_def)
  have a: "\<forall>j<3. failsRetryably asciiLower failsThrice j"
    by (simp add: failsThrice_retryably)
  have b: "int 3 \<le> RetryConfig.maxRetries (ErrorHandler.config (freshHandler DEFAULT_RETRY_CONFIG))"
    using m by simp
  have r1: "fst (withRetry asciiLower (js ''t0'') (freshHandler DEFAULT_RETRY_CONFIG) failsThrice
        (js ''op'')) = Inr 7"
    unfolding withRetry_unroll [OF a b]
    by (subst withRetryLoop.simps) (simp add: m failsThrice_def)
  have c: "\<forall>j\<le>3. failsRetryably asciiLower alwaysFails j"
    by (simp add: alwaysFails_retryably)
  have r2: "attempts (snd (snd (withRetry asciiLower (js ''t0'') (freshHandler DEFAULT_RETRY_CONFIG)
        alwaysFails (js ''op'')))) = 4"
    using withRetry_exhausted [OF c, of "freshHandler DEFAULT_RETRY_CONFIG" "js ''t0''" "js ''op''"] m
    by (simp add: Let_def)
  from m r1 r2 show ?thesis
    by (simp add: failsThrice_retryably)
qed

text \<open>
  C4. For a retry number \<open>k\<close> of at least 1, \<open>calculateDelay\<close> is the minimum of
  \<open>baseDelay * backoffMultiplier ^ (k - 1)\<close> and \<open>maxDelay\<close>, and in a run of \<open>withRetry\<close> whose
  first \<open>k\<close> attempts fail with retryable errors (\<open>k\<close> at most \<open>maxRetries\<close>) that is the
  \<open>k\<close>-th delay, the one before attempt \<open>k + 1\<close>. With base 1000, multiplier 2 and maximum
  10000 the delays are 1000, 2000, 4000, 8000, then 10000.
\<close>

theorem calculateDelay_spec:
  "(1 \<le> k \<longrightarrow>
      calculateDelay cfg (int k) =
        min (baseDelay cfg * backoffMultiplier cfg ^ (k - 1)) (maxDelay cfg))
   \<and> (1 \<le> k \<and> int k \<le> RetryConfig.maxRetries (ErrorHandler.config h) \<and> (\<forall>j<k. failsRetryably lc fn j) \<longrightarrow>
        sleeps (snd (snd (withRetry lc now h fn ctx))) ! (k - 1) =
          min (baseDelay (ErrorHandler.config h) * backoffMultiplier (ErrorHandler.config h) ^ (k - 1)) (maxDelay (ErrorHandler.config h)))
   \<and> map (\<lambda>k. calculateDelay (c0\<lparr> baseDelay := 1000, backoffMultiplier := 2, maxDelay := 10000 \<rparr>) (int k))
        [1, 2, 3, 4, 5, 6] = [1000, 2000, 4000, 8000, 10000, 10000]"
proof (intro conjI impI)
  assume "1 \<le> k"
  then show "calculateDelay cfg (int k) =
        min (baseDelay cfg * backoffMultiplier cfg ^ (k - 1)) (maxDelay cfg)"
    by (rule calculateDelay_pos)
next
  assume a: "1 \<le> k \<and> int k \<le> RetryConfig.maxRetries (ErrorHandler.config h) \<and> (\<forall>j<k. failsRetryably lc fn j)"
  then have "sleeps (snd (snd (withRetry lc now h fn ctx))) ! (k - 1) =
      calculateDelay (ErrorHandler.config h) (int k)"
    by (intro withRetry_sleep_nth) simp_all
  with a show "sleeps (snd (snd (withRetry lc now h fn ctx))) ! (k - 1) =
          min (baseDelay (ErrorHandler.config h) * backoffMultiplier (ErrorHandler.config h) ^ (k - 1)) (maxDelay (ErrorHandler.config h))"
    by (simp add: calculateDelay_pos)
next
  show "map (\<lambda>k. calculateDelay (c0\<lparr> baseDelay := 1000, backoffMultiplier := 2, maxDelay := 10000 \<rparr>) (int k))
        [1, 2, 3, 4, 5, 6] = [1000, 2000, 4000, 8000, 10000, 10000]"
    by (simp add: calculateDelay_def)
qed

theorem calculateDelay_spec_witness:
  "calculateDelay DEFAULT_RETRY_CONFIG 3 = 4000
   \<and> sleeps (snd (snd (withRetry asciiLower (js ''t0'') (freshHandler DEFAULT_RETRY_CONFIG)
        alwaysFails (js ''op'')))) ! 2 = 4000"
proof -
  let ?h = "freshHandler DEFAULT_RETRY_CONFIG"
  note spec = calculateDelay_spec [of 3 DEFAULT_RETRY_CONFIG ?h asciiLower alwaysFails
      "js ''t0''" "js ''op''"]
  have cfg: "ErrorHandler.config ?h = DEFAULT_RETRY_CONFIG" "RetryConfig.maxRetries (ErrorHandler.config ?h) = 3"
    by (simp_all add: freshHandler_def DEFAULT_RETRY_CONFIG_def)
  have h1: "1 \<le> (3::nat)" by simp
  have h2: "1 \<le> (3::nat) \<and> int 3 \<le> RetryConfig.maxRetries (ErrorHandler.config ?h) \<and>
      (\<forall>j<3. failsRetryably asciiLower alwaysFails j)"
    by (simp add: cfg(2) alwaysFails_retryably)
  note r1 = spec [THEN conjunct1, THEN mp, OF h1]
  note r2 = spec [THEN conjunct2, THEN conjunct1, THEN mp, OF h2]
  from r1 r2 show ?thesis
    by (simp add: freshHandler_def DEFAULT_RETRY_CONFIG_def)
qed

subsection \<open>Batches\<close>

lemma rejections_empty_iff: "rejections outs = [] \<longleftrightarrow> (\<forall>out\<in>set outs. isl out = False)"
  by (induction outs rule: rejections.induct) auto

lemma fulfilments_all: "rejections outs = [] \<Longrightarrow> fulfilments outs = map projr outs"
  by (induction outs rule: rejections.induct) auto

lemma promiseAll_ok:
  "\<forall>x\<in>set xs. \<not> isl (fn x) \<Longrightarrow> promiseAll first (map fn xs) = Inr (map (projr \<circ> fn) xs)"
  by (simp add: promiseAll_def rejections_empty_iff fulfilments_all)

lemma promiseAll_rejects:
  "\<exists>x\<in>set xs. isl (fn x) \<Longrightarrow> \<exists>e. promiseAll first (map fn xs) = Inl e"
  by (auto simp: promiseAll_def rejections_empty_iff)

lemma slice_drop: "slice items i (i + c) = take c (drop i items)"
  by (simp add: slice_def)

lemma batchLoop_ok:
  assumes "1 \<le> c" "\<forall>x\<in>set (drop i items). \<not> isl (fn x)"
  shows "batchLoop first items fn c i results =
         Some (Inr (results @ map (projr \<circ> fn) (drop i items)))"
  using assms(2)
proof (induction "length items - i" arbitrary: i results rule: less_induct)
  case less
  show ?case
  proof (cases "i < length items")
    case False
    then show ?thesis by (subst batchLoop.simps) simp
  next
    case True
    have batch: "\<forall>x\<in>set (take c (drop i items)). \<not> isl (fn x)"
      using less.prems by (auto dest: in_set_takeD)
    have rest: "\<forall>x\<in>set (drop (i + c) items). \<not> isl (fn x)"
      using less.prems by (metis add.commute drop_drop in_set_dropD)
    have smaller: "length items - (i + c) < length items - i"
      using True assms(1) by simp
    have split: "map (projr \<circ> fn) (take c (drop i items)) @ map (projr \<circ> fn) (drop (i + c) items) =
        map (projr \<circ> fn) (drop i items)"
      by (metis add.commute append_take_drop_id drop_drop map_append)
    show ?thesis
      apply (subst batchLoop.simps)
      using True less.hyps [OF smaller rest] split
      by (simp add: Let_def slice_drop promiseAll_ok [OF batch])
  qed
qed

lemma batchLoop_rejects:
  assumes "1 \<le> c" "\<exists>x\<in>set (drop i items). isl (fn x)"
  shows "\<exists>e. batchLoop first items fn c i results = Some (Inl e)"
  using assms(2)
proof (induction "length items - i" arbitrary: i results rule: less_induct)
  case less
  then have True: "i < length items"
    by (cases "i < length items") auto
  show ?case
  proof (cases "\<exists>x\<in>set (take c (drop i items)). isl (fn x)")
    case True
    from promiseAll_rejects [OF this] obtain e where
      "promiseAll first (map fn (take c (drop i items))) = Inl e" by blast
    then show ?thesis
      using \<open>i < length items\<close> by (subst batchLoop.simps) (simp add: Let_def slice_drop)
  next
    case False
    then have batch: "\<forall>x\<in>set (take c (drop i items)). \<not> isl (fn x)" by simp
    have "set (drop i items) = set (take c (drop i items)) \<union> set (drop (i + c) items)"
      by (metis add.commute append_take_drop_id drop_drop set_append)
    with less.prems False have rest: "\<exists>x\<in>set (drop (i + c) items). isl (fn x)"
      by auto
    have smaller: "length items - (i + c) < length items - i"
      using True assms(1) by simp
    from less.hyps [OF smaller rest] show ?thesis
      using True by (subst batchLoop.simps) (simp add: Let_def slice_drop promiseAll_ok [OF batch])
  qed
qed

lemma sequentialMap_ok:
  "\<forall>x\<in>set xs. \<not> isl (fn x) \<Longrightarrow> sequentialMap fn xs = Inr (map (projr \<circ> fn) xs)"
  by (induction xs) (auto split: sum.splits)

lemma sequentialMap_isl: "isl (sequentialMap fn xs) \<longleftrightarrow> (\<exists>x\<in>set xs. isl (fn x))"
  by (induction xs) (auto split: sum.splits)

lemma batchExecute_ok:
  assumes "1 \<le> c" "\<forall>x\<in>set items. \<not> isl (fn x)"
  shows "batchExecute first items fn c = Some (Inr (map (projr \<circ> fn) items))"
  unfolding batchExecute_def using batchLoop_ok [of c 0 items fn first "[]"] assms by simp

lemma batchExecute_rejects:
  assumes "1 \<le> c" "\<exists>x\<in>set items. isl (fn x)"
  shows "\<exists>e. batchExecute first items fn c = Some (Inl e)"
  unfolding batchExecute_def using batchLoop_rejects [of c 0 items fn first "[]"] assms by simp

text \<open>
  C8. With a concurrency of at least 1, \<open>batchExecute\<close> returns or rejects (it does not run
  forever). When the operation resolves for every item, the result is the list of the values
  in the order of the items; any list it returns has the length of the items and holds at
  index \<open>i\<close> the value of item \<open>i\<close>; and its outcome is that of the sequential map, up to which
  rejection is reported when several items of a batch reject.
\<close>

theorem batchExecute_spec:
  assumes "1 \<le> concurrency"
  shows "(\<exists>out. batchExecute first items fn concurrency = Some out)
    \<and> ((\<forall>x\<in>set items. \<not> isl (fn x)) \<longrightarrow>
          batchExecute first items fn concurrency = Some (Inr (map (projr \<circ> fn) items)))
    \<and> (\<forall>rs. batchExecute first items fn concurrency = Some (Inr rs) \<longrightarrow>
          length rs = length items \<and> (\<forall>i<length items. fn (items ! i) = Inr (rs ! i)))
    \<and> map_option (map_sum (\<lambda>e. ()) id) (batchExecute first items fn concurrency) =
        Some (map_sum (\<lambda>e. ()) id (sequentialMap fn items))"
proof (cases "\<forall>x\<in>set items. \<not> isl (fn x)")
  case True
  note ok = batchExecute_ok [OF assms True, of first]
  have "\<forall>i<length items. fn (items ! i) = Inr (projr (fn (items ! i)))"
    using True by (simp add: sum.expand)
  then show ?thesis
    using True by (simp add: ok sequentialMap_ok)
next
  case False
  then have ex: "\<exists>x\<in>set items. isl (fn x)" by simp
  from batchExecute_rejects [OF assms ex, of first] obtain e where
    e: "batchExecute first items fn concurrency = Some (Inl e)" by blast
  from ex have "isl (sequentialMap fn items)" by (simp add: sequentialMap_isl)
  then obtain e' where "sequentialMap fn items = Inl e'" by (cases "sequentialMap fn items") auto
  with False e show ?thesis by simp
qed

theorem batchExecute_spec_witness:
  "(1::nat) \<le> 2
   \<and> batchExecute hd [1, 2, 3, 4, 5 :: nat] (\<lambda>x. Inr (10 * x) :: unit + nat) 2 =
       Some (Inr [10, 20, 30, 40, 50])
   \<and> length [10, 20, 30, 40, 50 :: nat] = length [1, 2, 3, 4, 5 :: nat]
   \<and> (Inr (10 * ([1, 2, 3, 4, 5 :: nat] ! 3)) :: unit + nat) = Inr ([10, 20, 30, 40, 50] ! 3)
   \<and> sequentialMap (\<lambda>x. Inr (10 * x) :: unit + nat) [1, 2, 3, 4, 5 :: nat] =
       Inr [10, 20, 30, 40, 50]"
proof -
  have h: "(1::nat) \<le> 2" by simp
  have all: "\<forall>x\<in>set [1, 2, 3, 4, 5 :: nat]. \<not> isl (Inr (10 * x) :: unit + nat)" by simp
  note r = batchExecute_spec [OF h, of hd "[1, 2, 3, 4, 5 :: nat]" "\<lambda>x. Inr (10 * x) :: unit + nat",
      THEN conjunct2, THEN conjunct1, THEN mp, OF all]
  note a = batchExecute_spec [OF h, of hd "[1, 2, 3, 4, 5 :: nat]" "\<lambda>x. Inr (10 * x) :: unit + nat",
      THEN conjunct2, THEN conjunct2, THEN conjunct1, THEN spec, THEN mp, OF r]
  from h r a show ?thesis by simp
qed

subsection \<open>Refresh of all valuations\<close>

lemma batch_valuations:
  "batchExecute first watchlist (\<lambda>fund. Inr (g fund)) MAX_CONCURRENT_REQUESTS =
     Some (Inr (map g watchlist))"
  using batchExecute_ok [of MAX_CONCURRENT_REQUESTS watchlist "\<lambda>fund. Inr (g fund)" first]
  by (simp add: MAX_CONCURRENT_REQUESTS_def comp_def)

lemma updateFund_stale: "updateFund clock False quoteMap None fund = fund"
  by (simp add: updateFund_def)

lemma updateAllValuations_cases:
  "updateAllValuations env watchlist =
     (let valuations = map (\<lambda>fund. getFundValuation env (Fund.code fund)) watchlist;
          calls1 = map (\<lambda>fund. GetFundValuation (Fund.code fund)) watchlist;
          quotes = getStockQuotes (fetchQuotes env) (collectStockCodes watchlist);
          updatedFunds =
            map (\<lambda>(fund, index).
                   updateFund (isoNow env) (quotes \<noteq> []) (buildQuoteMap quotes)
                     (valuationAt valuations index) fund)
              (zip watchlist [0..<length watchlist]);
          calls3 = calls1 @ [GetStockQuotes (collectStockCodes watchlist), SaveWatchlist updatedFunds]
      in if watchlist = [] then Some (Inr [], [])
         else if \<not> list_ex (\<lambda>v. case v of None \<Rightarrow> False | Some fv \<Rightarrow> isTradingDay fv) valuations
         then Some (Inr watchlist, calls1)
         else case saveWatchlist env updatedFunds of
                Some e \<Rightarrow> Some (Inl e, calls3)
              | None \<Rightarrow> Some (Inr updatedFunds, calls3))"
  by (simp add: updateAllValuations_def batch_valuations Let_def split: option.splits)

lemma codes_differ: "js ''000002'' \<noteq> js ''000001''"
  by (simp add: js_def)

text \<open>
  C6. For a watch list that is not empty, when no valuation the provider returned carries
  the trading-day flag (a fetch that failed returns none), \<open>updateAllValuations\<close> returns the
  watch list as it is, and its only calls are the valuation fetches, one per fund: it does
  not fetch quotes and does not save.
\<close>

theorem updateAllValuations_skips:
  assumes "watchlist \<noteq> []"
    and "\<forall>fund\<in>set watchlist.
           case getFundValuation env (Fund.code fund) of
             None \<Rightarrow> True
           | Some fv \<Rightarrow> \<not> isTradingDay fv"
  shows "updateAllValuations env watchlist =
           Some (Inr watchlist, map (\<lambda>fund. GetFundValuation (Fund.code fund)) watchlist)"
proof -
  have "\<not> list_ex (\<lambda>v. case v of None \<Rightarrow> False | Some fv \<Rightarrow> isTradingDay fv)
          (map (\<lambda>fund. getFundValuation env (Fund.code fund)) watchlist)"
    using assms(2) by (auto simp: list_ex_iff split: option.splits)
  then show ?thesis
    using assms(1) by (simp add: updateAllValuations_def batch_valuations Let_def)
qed

theorem updateAllValuations_skips_witness:
  "[fundA, fundB] \<noteq> []
   \<and> getFundValuation closedEnv (Fund.code fundA) = None
   \<and> getFundValuation closedEnv (Fund.code fundB) = None
   \<and> updateAllValuations closedEnv [fundA, fundB] =
       Some (Inr [fundA, fundB], [GetFundValuation (js ''000001''), GetFundValuation (js ''000002'')])"
proof -
  have h1: "[fundA, fundB] \<noteq> []" by simp
  have h2: "\<forall>fund\<in>set [fundA, fundB].
           case getFundValuation closedEnv (Fund.code fund) of
             None \<Rightarrow> True
           | Some fv \<Rightarrow> \<not> isTradingDay fv"
    by (simp add: closedEnv_def)
  from updateAllValuations_skips [OF h1 h2] show ?thesis
    by (simp add: closedEnv_def fundA_def fundB_def)
qed

text \<open>
  C7. When \<open>updateAllValuations\<close> returns a list, the quote fetch of the cycle yields no quote
  and the provider has no valuation for the fund at index \<open>i\<close>, the returned list has the
  length of the watch list and its record at \<open>i\<close> is the input record, every field of it. And
  the call returns a list whenever the storage service does not throw, whatever the providers
  answer.
\<close>

theorem updateAllValuations_retains:
  "(updateAllValuations env watchlist = Some (Inr updated, calls) \<and> i < length watchlist \<and>
    getFundValuation env (Fund.code (watchlist ! i)) = None \<and>
    getStockQuotes (fetchQuotes env) (collectStockCodes watchlist) = [] \<longrightarrow>
      length updated = length watchlist \<and> updated ! i = watchlist ! i)
   \<and> ((\<forall>funds. saveWatchlist env funds = None) \<longrightarrow>
        (\<exists>updated calls. updateAllValuations env watchlist = Some (Inr updated, calls)))"
proof (intro conjI impI)
  assume a: "updateAllValuations env watchlist = Some (Inr updated, calls) \<and> i < length watchlist \<and>
    getFundValuation env (Fund.code (watchlist ! i)) = None \<and>
    getStockQuotes (fetchQuotes env) (collectStockCodes watchlist) = []"
  then have at: "valuationAt (map (\<lambda>fund. getFundValuation env (Fund.code fund)) watchlist) i = None"
    by (simp add: valuationAt_def)
  from a show "length updated = length watchlist"
    by (auto simp: updateAllValuations_cases Let_def split: if_splits option.splits)
  from a at show "updated ! i = watchlist ! i"
    by (auto simp: updateAllValuations_cases Let_def updateFund_stale split: if_splits option.splits)
next
  assume "\<forall>funds. saveWatchlist env funds = None"
  then show "\<exists>updated calls. updateAllValuations env watchlist = Some (Inr updated, calls)"
    by (simp add: updateAllValuations_cases Let_def)
qed

theorem updateAllValuations_retains_witness:
  "(\<forall>funds. saveWatchlist partialEnv funds = None)
   \<and> getFundValuation partialEnv (Fund.code ([fundA, fundB] ! 1)) = None
   \<and> getStockQuotes (fetchQuotes partialEnv) (collectStockCodes [fundA, fundB]) = []
   \<and> (\<exists>updated calls.
         updateAllValuations partialEnv [fundA, fundB] = Some (Inr updated, calls) \<and>
         length updated = 2 \<and> updated ! 1 = fundB \<and> updated ! 0 \<noteq> fundA \<and>
         length calls = 4)"
proof -
  have h1: "\<forall>funds. saveWatchlist partialEnv funds = None"
    by (simp add: partialEnv_def closedEnv_def)
  have h2: "getFundValuation partialEnv (Fund.code ([fundA, fundB] ! 1)) = None"
    by (simp add: partialEnv_def closedEnv_def fundB_def codes_differ)
  have h3: "getStockQuotes (fetchQuotes partialEnv) (collectStockCodes [fundA, fundB]) = []"
    by (simp add: partialEnv_def closedEnv_def getStockQuotes_def)
  note spec = updateAllValuations_retains [of partialEnv "[fundA, fundB]" _ _ 1]
  from spec [THEN conjunct2, THEN mp, OF h1] obtain updated calls where
    u: "updateAllValuations partialEnv [fundA, fundB] = Some (Inr updated, calls)" by blast
  have i: "1 < length [fundA, fundB]" by simp
  note r = spec [THEN conjunct1, THEN mp, OF conjI [OF u conjI [OF i conjI [OF h2 h3]]]]
  have v0: "getFundValuation partialEnv (Fund.code fundA) = Some liveValuation"
    by (simp add: partialEnv_def closedEnv_def fundA_def)
  have "updated ! 0 \<noteq> fundA \<and> length calls = 4"
    using u h2 h3 v0
    by (auto simp: updateAllValuations_cases Let_def valuationAt_def liveValuation_def
        updateFund_def h1 fundA_def)
  with u r h1 h2 h3 show ?thesis by auto
qed

subsection \<open>Scheduler\<close>

lemma handleUpdateError_count:
  "consecutiveErrors (status (fst (handleUpdateError e s))) = consecutiveErrors (status s) + 1"
  by (simp add: handleUpdateError_def Let_def)

lemma handleUpdateError_config:
  "UpdateScheduler.config (fst (handleUpdateError e s)) = UpdateScheduler.config s"
  by (simp add: handleUpdateError_def Let_def)

lemma handleUpdateError_below:
  "int (consecutiveErrors (status s)) + 1 < SchedulerConfig.maxRetries (UpdateScheduler.config s) \<Longrightarrow>
   snd (handleUpdateError e s) = [SetTimeout (retryDelay (UpdateScheduler.config s))]"
  by (simp add: handleUpdateError_def Let_def)

lemma handleUpdateError_reached:
  "SchedulerConfig.maxRetries (UpdateScheduler.config s) \<le> int (consecutiveErrors (status s)) + 1 \<Longrightarrow>
   \<exists>msg. snd (handleUpdateError e s) = [SendError msg]"
  by (simp add: handleUpdateError_def Let_def)

lemma runCycles_append:
  "runCycles (xs @ ys) s =
     (case runCycles xs s of (s1, f1) \<Rightarrow> (case runCycles ys s1 of (s2, f2) \<Rightarrow> (s2, f1 @ f2)))"
  by (induction xs arbitrary: s) (auto split: prod.splits)

lemma executeUpdate_failed:
  "force \<or> isMarketOpen clock \<Longrightarrow>
   executeUpdate force clock (Inl e) stamp s = handleUpdateError e s"
  by (auto simp: executeUpdate_def)

lemma runCycles_below:
  fixes cycles :: "(bool \<times> LocalTime \<times> (thrown + 'a Fund_scheme list) \<times> jsstring) list"
  assumes "\<forall>c\<in>set cycles. runsAndFails c"
    "int (consecutiveErrors (status s) + length cycles) < SchedulerConfig.maxRetries (UpdateScheduler.config s)"
  shows "snd (runCycles cycles s) = replicate (length cycles) (SetTimeout (retryDelay (UpdateScheduler.config s)))
       \<and> consecutiveErrors (status (fst (runCycles cycles s))) = consecutiveErrors (status s) + length cycles
       \<and> UpdateScheduler.config (fst (runCycles cycles s)) = UpdateScheduler.config s"
  using assms
proof (induction cycles arbitrary: s)
  case Nil
  then show ?case by simp
next
  case (Cons c cycles)
  obtain force clock outcome stamp where c: "c = (force, clock, outcome, stamp)"
    by (cases c) auto
  from Cons.prems(1) c obtain e where e: "outcome = Inl e" "force \<or> isMarketOpen clock"
    by (cases outcome) (auto simp: runsAndFails_def)
  obtain s1 and fx :: "'a Effect list" where h: "handleUpdateError e s = (s1, fx)"
    by (cases "handleUpdateError e s :: UpdateScheduler \<times> 'a Effect list") auto
  have below: "int (consecutiveErrors (status s)) + 1 < SchedulerConfig.maxRetries (UpdateScheduler.config s)"
    using Cons.prems(2) by simp
  have s1: "consecutiveErrors (status s1) = consecutiveErrors (status s) + 1"
    "UpdateScheduler.config s1 = UpdateScheduler.config s"
    "fx = [SetTimeout (retryDelay (UpdateScheduler.config s))]"
    using h handleUpdateError_count [of e s] handleUpdateError_config [of e s]
      handleUpdateError_below [OF below, of e]
    by (metis fst_conv, metis fst_conv, metis snd_conv)
  have ih: "snd (runCycles cycles s1) = replicate (length cycles) (SetTimeout (retryDelay (UpdateScheduler.config s1)))
       \<and> consecutiveErrors (status (fst (runCycles cycles s1))) = consecutiveErrors (status s1) + length cycles
       \<and> UpdateScheduler.config (fst (runCycles cycles s1)) = UpdateScheduler.config s1"
    using Cons.prems by (intro Cons.IH) (simp_all add: s1)
  show ?case
    using ih by (auto simp: c e executeUpdate_failed h s1 split: prod.splits)
qed

lemma runCycles_reached:
  fixes cycles :: "(bool \<times> LocalTime \<times> (thrown + 'a Fund_scheme list) \<times> jsstring) list"
  assumes "\<forall>c\<in>set cycles. runsAndFails c"
    "SchedulerConfig.maxRetries (UpdateScheduler.config s) \<le> int (consecutiveErrors (status s)) + 1"
  shows "(\<exists>msgs. length msgs = length cycles \<and> snd (runCycles cycles s) = map SendError msgs)
       \<and> consecutiveErrors (status (fst (runCycles cycles s))) = consecutiveErrors (status s) + length cycles"
  using assms
proof (induction cycles arbitrary: s)
  case Nil
  then show ?case by simp
next
  case (Cons c cycles)
  obtain force clock outcome stamp where c: "c = (force, clock, outcome, stamp)"
    by (cases c) auto
  from Cons.prems(1) c obtain e where e: "outcome = Inl e" "force \<or> isMarketOpen clock"
    by (cases outcome) (auto simp: runsAndFails_def)
  obtain s1 and fx :: "'a Effect list" where h: "handleUpdateError e s = (s1, fx)"
    by (cases "handleUpdateError e s :: UpdateScheduler \<times> 'a Effect list") auto
  from handleUpdateError_reached [OF Cons.prems(2), of e] h obtain msg where
    msg: "fx = [SendError msg]" by (metis snd_conv)
  have s1: "consecutiveErrors (status s1) = consecutiveErrors (status s) + 1"
    "UpdateScheduler.config s1 = UpdateScheduler.config s"
    using h handleUpdateError_count [of e s] handleUpdateError_config [of e s]
    by (metis fst_conv, metis fst_conv)
  have ih: "(\<exists>msgs. length msgs = length cycles \<and> snd (runCycles cycles s1) = map SendError msgs)
       \<and> consecutiveErrors (status (fst (runCycles cycles s1))) = consecutiveErrors (status s1) + length cycles"
    using Cons.prems by (intro Cons.IH) (simp_all add: s1)
  then obtain msgs where msgs: "length msgs = length cycles"
    "snd (runCycles cycles s1) = map SendError msgs" by blast
  have "length (msg # msgs) = length (c # cycles) \<and>
      snd (runCycles (c # cycles) s) = map SendError (msg # msgs)"
    using msgs by (auto simp: c e executeUpdate_failed h msg split: prod.splits)
  then have "\<exists>msgs. length msgs = length (c # cycles) \<and>
      snd (runCycles (c # cycles) s) = map SendError msgs" by blast
  moreover have "consecutiveErrors (status (fst (runCycles (c # cycles) s))) =
      consecutiveErrors (status s) + length (c # cycles)"
    using ih by (auto simp: c e executeUpdate_failed h s1 split: prod.splits)
  ultimately show ?case by blast
qed

lemma runCycles_long_streak:
  fixes cycles :: "(bool \<times> LocalTime \<times> (thrown + 'a Fund_scheme list) \<times> jsstring) list"
  assumes "\<forall>c\<in>set cycles. runsAndFails c" "consecutiveErrors (status s) = 0"
    "SchedulerConfig.maxRetries (UpdateScheduler.config s) = int m" "1 \<le> m" "m \<le> length cycles"
  shows "\<exists>msgs. length msgs = length cycles - (m - 1) \<and>
           snd (runCycles cycles s) =
             replicate (m - 1) (SetTimeout (retryDelay (UpdateScheduler.config s))) @ map SendError msgs"
    and "consecutiveErrors (status (fst (runCycles cycles s))) = length cycles"
proof -
  let ?front = "take (m - 1) cycles" and ?rest = "drop (m - 1) cycles"
  have split: "cycles = ?front @ ?rest" by simp
  have lf: "length ?front = m - 1" using assms(5) by simp
  have front: "\<forall>c\<in>set ?front. runsAndFails c" using assms(1) by (auto dest: in_set_takeD)
  have rest: "\<forall>c\<in>set ?rest. runsAndFails c" using assms(1) by (auto dest: in_set_dropD)
  have below: "int (consecutiveErrors (status s) + length ?front) <
      SchedulerConfig.maxRetries (UpdateScheduler.config s)"
    using assms(2,3,4) lf by simp
  note f = runCycles_below [OF front below]
  obtain s1 and f1 :: "'a Effect list" where r1: "runCycles ?front s = (s1, f1)"
    by (cases "runCycles ?front s") auto
  have reached: "SchedulerConfig.maxRetries (UpdateScheduler.config s1) \<le>
      int (consecutiveErrors (status s1)) + 1"
    using f r1 assms(2,3,4) lf by simp
  note g = runCycles_reached [OF rest reached]
  then obtain msgs where msgs: "length msgs = length ?rest"
    "snd (runCycles ?rest s1) = map SendError msgs" by blast
  obtain s2 and f2 :: "'a Effect list" where r2: "runCycles ?rest s1 = (s2, f2)"
    by (cases "runCycles ?rest s1") auto
  have whole: "runCycles cycles s = (s2, f1 @ f2)"
    using r1 r2 runCycles_append [of ?front ?rest s] by simp
  have "length msgs = length cycles - (m - 1) \<and>
      snd (runCycles cycles s) =
        replicate (m - 1) (SetTimeout (retryDelay (UpdateScheduler.config s))) @ map SendError msgs"
    using whole f r1 r2 msgs lf by simp
  then show "\<exists>msgs. length msgs = length cycles - (m - 1) \<and>
           snd (runCycles cycles s) =
             replicate (m - 1) (SetTimeout (retryDelay (UpdateScheduler.config s))) @ map SendError msgs"
    by blast
  show "consecutiveErrors (status (fst (runCycles cycles s))) = length cycles"
    using whole f g r1 r2 assms(2,5) lf by simp
qed

text \<open>
  C5. A failed cycle adds one to \<open>consecutiveErrors\<close>. If the new count is below \<open>maxRetries\<close>
  the cycle arms one timer of \<open>retryDelay\<close> and sends nothing; otherwise it arms no timer and
  sends one error notification, and that at every such cycle: at the one where the count
  reaches \<open>maxRetries\<close> and at each failed cycle after it. A cycle that runs and fails is
  \<open>handleUpdateError\<close>; one that runs and succeeds sets \<open>consecutiveErrors\<close> to 0 and
  \<open>lastUpdateTime\<close> to the time stamp, and sends the funds. So a run of failed cycles counted
  from 0, at least \<open>maxRetries\<close> of them, arms \<open>maxRetries - 1\<close> timers and then sends one error
  notification for each of the remaining cycles: exactly one when the run has \<open>maxRetries\<close>
  cycles, one more for each further cycle.
\<close>

theorem scheduler_spec:
  fixes cycles :: "(bool \<times> LocalTime \<times> (thrown + 'a Fund_scheme list) \<times> jsstring) list"
    and funds :: "'a Fund_scheme list"
  shows "consecutiveErrors (status (fst (handleUpdateError e s :: UpdateScheduler \<times> 'a Effect list))) =
           consecutiveErrors (status s) + 1
   \<and> (int (consecutiveErrors (status s)) + 1 < SchedulerConfig.maxRetries (UpdateScheduler.config s) \<longrightarrow>
        snd (handleUpdateError e s :: UpdateScheduler \<times> 'a Effect list) =
          [SetTimeout (retryDelay (UpdateScheduler.config s))])
   \<and> (SchedulerConfig.maxRetries (UpdateScheduler.config s) \<le> int (consecutiveErrors (status s)) + 1 \<longrightarrow>
        (\<exists>msg. snd (handleUpdateError e s :: UpdateScheduler \<times> 'a Effect list) = [SendError msg]))
   \<and> (force \<or> isMarketOpen clock \<longrightarrow>
        executeUpdate force clock (Inl e :: thrown + 'a Fund_scheme list) stamp s =
          handleUpdateError e s \<and>
        consecutiveErrors (status (fst (executeUpdate force clock (Inr funds) stamp s))) = 0 \<and>
        lastUpdateTime (status (fst (executeUpdate force clock (Inr funds) stamp s))) = Some stamp \<and>
        snd (executeUpdate force clock (Inr funds) stamp s) = [SendValuationUpdate funds])
   \<and> ((\<forall>c\<in>set cycles. runsAndFails c) \<and> consecutiveErrors (status s) = 0 \<and>
       SchedulerConfig.maxRetries (UpdateScheduler.config s) = int m \<and> 1 \<le> m \<and>
       m \<le> length cycles \<longrightarrow>
        consecutiveErrors (status (fst (runCycles cycles s))) = length cycles \<and>
        (\<exists>msgs. length msgs = length cycles - (m - 1) \<and>
           snd (runCycles cycles s) =
             replicate (m - 1) (SetTimeout (retryDelay (UpdateScheduler.config s))) @
             map SendError msgs))"
proof (intro conjI impI)
  show "consecutiveErrors (status (fst (handleUpdateError e s :: UpdateScheduler \<times> 'a Effect list))) =
          consecutiveErrors (status s) + 1"
    by (rule handleUpdateError_count)
next
  assume "int (consecutiveErrors (status s)) + 1 < SchedulerConfig.maxRetries (UpdateScheduler.config s)"
  then show "snd (handleUpdateError e s :: UpdateScheduler \<times> 'a Effect list) =
      [SetTimeout (retryDelay (UpdateScheduler.config s))]"
    by (rule handleUpdateError_below)
next
  assume "SchedulerConfig.maxRetries (UpdateScheduler.config s) \<le> int (consecutiveErrors (status s)) + 1"
  then show "\<exists>msg. snd (handleUpdateError e s :: UpdateScheduler \<times> 'a Effect list) = [SendError msg]"
    by (rule handleUpdateError_reached)
next
  assume g: "force \<or> isMarketOpen clock"
  then show "executeUpdate force clock (Inl e :: thrown + 'a Fund_scheme list) stamp s =
          handleUpdateError e s"
    by (rule executeUpdate_failed)
  from g show "consecutiveErrors (status (fst (executeUpdate force clock (Inr funds) stamp s))) = 0"
    "lastUpdateTime (status (fst (executeUpdate force clock (Inr funds) stamp s))) = Some stamp"
    "snd (executeUpdate force clock (Inr funds) stamp s) = [SendValuationUpdate funds]"
    by (auto simp: executeUpdate_def)
next
  assume a: "(\<forall>c\<in>set cycles. runsAndFails c) \<and> consecutiveErrors (status s) = 0 \<and>
       SchedulerConfig.maxRetries (UpdateScheduler.config s) = int m \<and> 1 \<le> m \<and>
       m \<le> length cycles"
  then show "consecutiveErrors (status (fst (runCycles cycles s))) = length cycles"
    by (intro runCycles_long_streak [where m = m]) simp_all
  from a show "\<exists>msgs. length msgs = length cycles - (m - 1) \<and>
           snd (runCycles cycles s) =
             replicate (m - 1) (SetTimeout (retryDelay (UpdateScheduler.config s))) @
             map SendError msgs"
    by (intro runCycles_long_streak) simp_all
qed

theorem scheduler_spec_witness:
  "snd (handleUpdateError boom idleScheduler :: UpdateScheduler \<times> unit Effect list) = [SetTimeout 2000]
   \<and> (\<exists>msg. snd (handleUpdateError boom strainedScheduler :: UpdateScheduler \<times> unit Effect list) =
          [SendError msg])
   \<and> consecutiveErrors (status (fst (runCycles [failedCycle, failedCycle, failedCycle, failedCycle]
         idleScheduler))) = 4
   \<and> (\<exists>msgs. length msgs = 2 \<and>
          snd (runCycles [failedCycle, failedCycle, failedCycle, failedCycle] idleScheduler) =
            [SetTimeout 2000, SetTimeout 2000] @ map SendError msgs)
   \<and> consecutiveErrors (status (fst (executeUpdate True \<lparr> day = 0, hours = 3, minutes = 0 \<rparr>
         (Inr [fundA]) (js ''2024-01-03T02:01'') strainedScheduler))) = 0
   \<and> lastUpdateTime (status (fst (executeUpdate True \<lparr> day = 0, hours = 3, minutes = 0 \<rparr>
         (Inr [fundA]) (js ''2024-01-03T02:01'') strainedScheduler))) = Some (js ''2024-01-03T02:01'')"
proof -
  let ?t = "\<lparr> day = 0, hours = 3, minutes = 0 \<rparr>"
  let ?cs = "[failedCycle, failedCycle, failedCycle, failedCycle]"
  note a = scheduler_spec [where s = idleScheduler and e = boom and cycles = ?cs and m = 3]
  note b = scheduler_spec [where s = strainedScheduler and e = boom and force = True and clock = ?t
      and funds = "[fundA]" and stamp = "js ''2024-01-03T02:01''" and cycles = ?cs]
  have h1: "int (consecutiveErrors (status idleScheduler)) + 1 <
      SchedulerConfig.maxRetries (UpdateScheduler.config idleScheduler)"
    by (simp add: idleScheduler_def DEFAULT_CONFIG_def)
  have h2: "SchedulerConfig.maxRetries (UpdateScheduler.config strainedScheduler) \<le>
      int (consecutiveErrors (status strainedScheduler)) + 1"
    by (simp add: strainedScheduler_def idleScheduler_def DEFAULT_CONFIG_def)
  have h3: "True \<or> isMarketOpen ?t" by simp
  have h4: "(\<forall>c\<in>set ?cs. runsAndFails c) \<and> consecutiveErrors (status idleScheduler) = 0 \<and>
       SchedulerConfig.maxRetries (UpdateScheduler.config idleScheduler) = int 3 \<and> 1 \<le> (3::nat) \<and>
       3 \<le> length ?cs"
    by (simp add: runsAndFails_def failedCycle_def idleScheduler_def DEFAULT_CONFIG_def)
  note r1 = a [THEN conjunct2, THEN conjunct1, THEN mp, OF h1]
  note r2 = b [THEN conjunct2, THEN conjunct2, THEN conjunct1, THEN mp, OF h2]
  note r3 = b [THEN conjunct2, THEN conjunct2, THEN conjunct2, THEN conjunct1, THEN mp, OF h3]
  note r4 = a [THEN conjunct2, THEN conjunct2, THEN conjunct2, THEN conjunct2, THEN mp, OF h4]
  have d: "retryDelay (UpdateScheduler.config idleScheduler) = 2000"
    by (simp add: idleScheduler_def DEFAULT_CONFIG_def)
  have l: "length ?cs = 4" "length ?cs - (3 - 1) = 2"
    "replicate (3 - 1) (SetTimeout 2000 :: unit Effect) = [SetTimeout 2000, SetTimeout 2000]"
    by (simp_all add: numeral_2_eq_2)
  note r5 = r4 [unfolded d l]
  from r1 r2 r3 r5 show ?thesis
    by (simp add: d)
qed

text \<open>
  With the default configuration (\<open>maxRetries = 3\<close>), the count reaches \<open>maxRetries\<close> at the
  third failed cycle in a row, and six failed cycles in a row send four error notifications,
  not one: the third cycle and each of the three after it.
\<close>

theorem scheduler_counterexample:
  "SchedulerConfig.maxRetries (UpdateScheduler.config idleScheduler) = 3
   \<and> consecutiveErrors (status (fst (runCycles [failedCycle, failedCycle, failedCycle]
         idleScheduler))) = 3
   \<and> snd (runCycles [failedCycle, failedCycle, failedCycle, failedCycle, failedCycle, failedCycle]
         idleScheduler) =
       [SetTimeout 2000, SetTimeout 2000,
        SendError (zhCheckNetwork @ js ''boom'' @ js '')''),
        SendError (zhCheckNetwork @ js ''boom'' @ js '')''),
        SendError (zhCheckNetwork @ js ''boom'' @ js '')''),
        SendError (zhCheckNetwork @ js ''boom'' @ js '')'')]"
  by (simp add: failedCycle_def boom_def idleScheduler_def DEFAULT_CONFIG_def executeUpdate_def
      handleUpdateError_def Let_def)

subsection \<open>Market hours\<close>

text \<open>
  C9. The gate is closed on Saturday and Sunday; on any other day it is open exactly when
  the clock reading lies in 09:30 to 11:30 or in 13:00 to 15:00, ends included. Monday 10:00
  and Friday 14:59 are open; Monday 12:00, Saturday 10:00 and Friday 15:01 are closed.
\<close>

theorem isMarketOpen_spec:
  assumes "minutes t < 60"
  shows "(if day t = 0 \<or> day t = 6 then isMarketOpen t = False
          else isMarketOpen t =
                 (clockBetween (9, 30) (11, 30) (hours t, minutes t) \<or>
                  clockBetween (13, 0) (15, 0) (hours t, minutes t)))
       \<and> isMarketOpen \<lparr>day = 1, hours = 10, minutes = 0\<rparr>
       \<and> isMarketOpen \<lparr>day = 1, hours = 12, minutes = 0\<rparr> = False
       \<and> isMarketOpen \<lparr>day = 6, hours = 10, minutes = 0\<rparr> = False
       \<and> isMarketOpen \<lparr>day = 5, hours = 14, minutes = 59\<rparr>
       \<and> isMarketOpen \<lparr>day = 5, hours = 15, minutes = 1\<rparr> = False"
proof -
  have ex: "isMarketOpen \<lparr>day = 1, hours = 10, minutes = 0\<rparr>"
    "isMarketOpen \<lparr>day = 1, hours = 12, minutes = 0\<rparr> = False"
    "isMarketOpen \<lparr>day = 6, hours = 10, minutes = 0\<rparr> = False"
    "isMarketOpen \<lparr>day = 5, hours = 14, minutes = 59\<rparr>"
    "isMarketOpen \<lparr>day = 5, hours = 15, minutes = 1\<rparr> = False"
    by (simp_all add: isMarketOpen_def morningStart_def morningEnd_def afternoonStart_def
        afternoonEnd_def)
  have gen: "isMarketOpen t =
      (clockBetween (9, 30) (11, 30) (hours t, minutes t) \<or>
       clockBetween (13, 0) (15, 0) (hours t, minutes t))"
    if "day t \<noteq> 0" "day t \<noteq> 6"
    using that assms
    unfolding isMarketOpen_def morningStart_def morningEnd_def afternoonStart_def
      afternoonEnd_def clockBetween_def Let_def
    by (simp only: if_False simp_thms prod.case) arith
  show ?thesis
    using ex gen by (simp add: isMarketOpen_def)
qed

theorem isMarketOpen_spec_witness:
  "minutes \<lparr>day = 3, hours = 11, minutes = 30\<rparr> < 60
   \<and> isMarketOpen \<lparr>day = 3, hours = 11, minutes = 30\<rparr>
   \<and> clockBetween (9, 30) (11, 30) (11, 30)"
  using isMarketOpen_spec [of "\<lparr>day = 3, hours = 11, minutes = 30\<rparr>"]
  by (simp add: clockBetween_def)

end
